theory Spec2Isabelle
  imports Complex_Main "HOL-Library.Sublist" "HOL-Library.Multiset"
begin

section \<open>Python values and library operations\<close>

text \<open>
  The tools of \<^verbatim>\<open>cloudwise_finops\<close> receive their series and baselines as JSON text and
  hand it to \<^verbatim>\<open>json.loads\<close>. The model starts from the outcome of that call: a parsed
  value, or nothing when \<^verbatim>\<open>json.loads\<close> raises \<^verbatim>\<open>JSONDecodeError\<close>. A JSON object is the
  Python dict that was built from it, kept as an association list read with \<open>map_of\<close>.

  Python floats are modelled as real numbers: every value is finite and arithmetic is exact.
  The one infinite value the code builds itself, \<^verbatim>\<open>float('inf')\<close>, has its own constructor.
\<close>

datatype json =
  JNull
  | JBool bool
  | JNum real
  | JStr string
  | JArr "json list"
  | JObj "(string \<times> json) list"

datatype exn =
  TypeError
  | ValueError
  | KeyError
  | AttributeError
  | IndexError
  | ZeroDivisionError
  | OverflowError
  | StatisticsError

datatype pyfloat = Fin real | PosInf

text \<open>
  What \<^verbatim>\<open>run\<close> hands back to its caller: an error message (kept by its fixed leading text)
  or the result dictionary. An exception that leaves \<^verbatim>\<open>run\<close> is the \<open>Inl\<close> of the sum.
\<close>

datatype 'a returned = ErrorText string | Result 'a

fun result_of :: "exn + 'a returned \<Rightarrow> 'a option" where
  "result_of (Inr (Result r)) = Some r"
| "result_of (Inr (ErrorText m)) = None"
| "result_of (Inl e) = None"

text \<open>
  The two library parsers the tools call on strings, \<^verbatim>\<open>float(s)\<close> and
  \<^verbatim>\<open>datetime.strptime(s, "%Y-%m-%d")\<close>, are parameters of the model; \<open>None\<close> is
  \<^verbatim>\<open>ValueError\<close>. A date is its proleptic Gregorian ordinal (\<^verbatim>\<open>toordinal()\<close>).
\<close>

type_synonym date = int

record pylib =
  float_of_str :: "string \<Rightarrow> real option"
  strptime_ymd :: "string \<Rightarrow> date option"

definition and_then :: "exn + 'a \<Rightarrow> ('a \<Rightarrow> exn + 'b) \<Rightarrow> exn + 'b" where
  "and_then m f = (case m of Inl e \<Rightarrow> Inl e | Inr x \<Rightarrow> f x)"

text \<open>\<^verbatim>\<open>key in value\<close>: key test on a dict, membership on a list, substring on a string.\<close>

fun py_contains :: "json \<Rightarrow> string \<Rightarrow> exn + bool" where
  "py_contains (JObj kvs) k = Inr (map_of kvs k \<noteq> None)"
| "py_contains (JArr xs) k = Inr (JStr k \<in> set xs)"
| "py_contains (JStr s) k = Inr (sublist k s)"
| "py_contains JNull k = Inl TypeError"
| "py_contains (JBool b) k = Inl TypeError"
| "py_contains (JNum x) k = Inl TypeError"

text \<open>\<^verbatim>\<open>value[key]\<close> with a string key.\<close>

fun py_getitem :: "json \<Rightarrow> string \<Rightarrow> exn + json" where
  "py_getitem (JObj kvs) k = (case map_of kvs k of None \<Rightarrow> Inl KeyError | Some v \<Rightarrow> Inr v)"
| "py_getitem (JArr xs) k = Inl TypeError"
| "py_getitem (JStr s) k = Inl TypeError"
| "py_getitem JNull k = Inl TypeError"
| "py_getitem (JBool b) k = Inl TypeError"
| "py_getitem (JNum x) k = Inl TypeError"

text \<open>\<^verbatim>\<open>value.get(key)\<close>; the caller supplies the default for \<open>None\<close>.\<close>

fun py_get :: "json \<Rightarrow> string \<Rightarrow> exn + json option" where
  "py_get (JObj kvs) k = Inr (map_of kvs k)"
| "py_get (JArr xs) k = Inl AttributeError"
| "py_get (JStr s) k = Inl AttributeError"
| "py_get JNull k = Inl AttributeError"
| "py_get (JBool b) k = Inl AttributeError"
| "py_get (JNum x) k = Inl AttributeError"

fun py_float :: "pylib \<Rightarrow> json \<Rightarrow> exn + real" where
  "py_float L (JNum x) = Inr x"
| "py_float L (JBool b) = Inr (if b then 1 else 0)"
| "py_float L (JStr s) = (case float_of_str L s of None \<Rightarrow> Inl ValueError | Some x \<Rightarrow> Inr x)"
| "py_float L JNull = Inl TypeError"
| "py_float L (JArr xs) = Inl TypeError"
| "py_float L (JObj kvs) = Inl TypeError"

fun py_strptime :: "pylib \<Rightarrow> json \<Rightarrow> exn + date" where
  "py_strptime L (JStr s) = (case strptime_ymd L s of None \<Rightarrow> Inl ValueError | Some d \<Rightarrow> Inr d)"
| "py_strptime L JNull = Inl TypeError"
| "py_strptime L (JBool b) = Inl TypeError"
| "py_strptime L (JNum x) = Inl TypeError"
| "py_strptime L (JArr xs) = Inl TypeError"
| "py_strptime L (JObj kvs) = Inl TypeError"

text \<open>A JSON value as an operand of \<^verbatim>\<open><=\<close> against a float.\<close>

fun py_number :: "json \<Rightarrow> exn + real" where
  "py_number (JNum x) = Inr x"
| "py_number (JBool b) = Inr (if b then 1 else 0)"
| "py_number JNull = Inl TypeError"
| "py_number (JStr s) = Inl TypeError"
| "py_number (JArr xs) = Inl TypeError"
| "py_number (JObj kvs) = Inl TypeError"

text \<open>\<^verbatim>\<open>x / y\<close> on floats.\<close>

definition py_div :: "real \<Rightarrow> real \<Rightarrow> exn + real" where
  "py_div x y = (if y = 0 then Inl ZeroDivisionError else Inr (x / y))"

text \<open>\<^verbatim>\<open>round(x, ndigits)\<close>: to the nearest multiple of \<open>10^-ndigits\<close>, ties to even.\<close>

definition round_half_even :: "real \<Rightarrow> int" where
  "round_half_even x =
     (let f = \<lfloor>x\<rfloor>; d = x - of_int f
      in if d < 1 / 2 then f else if 1 / 2 < d then f + 1 else if even f then f else f + 1)"

definition py_round :: "real \<Rightarrow> nat \<Rightarrow> real" where
  "py_round x ndigits = of_int (round_half_even (x * 10 ^ ndigits)) / 10 ^ ndigits"

fun py_round_f :: "pyfloat \<Rightarrow> nat \<Rightarrow> pyfloat" where
  "py_round_f (Fin x) ndigits = Fin (py_round x ndigits)"
| "py_round_f PosInf ndigits = PosInf"

text \<open>\<^verbatim>\<open>xs[i:]\<close>, and \<^verbatim>\<open>xs[-w:]\<close> as the code writes its trailing windows.\<close>

definition slice_from :: "int \<Rightarrow> 'a list \<Rightarrow> 'a list" where
  "slice_from i xs = (if i < 0 then drop (nat (int (length xs) + i)) xs else drop (nat i) xs)"

definition last_n :: "int \<Rightarrow> 'a list \<Rightarrow> 'a list" where
  "last_n w xs = slice_from (- w) xs"

text \<open>\<^verbatim>\<open>statistics.mean\<close> and \<^verbatim>\<open>statistics.stdev\<close> (sample deviation, \<open>N - 1\<close>).\<close>

definition statistics_mean :: "real list \<Rightarrow> exn + real" where
  "statistics_mean xs =
     (if xs = [] then Inl StatisticsError else Inr (sum_list xs / real (length xs)))"

definition statistics_stdev :: "real list \<Rightarrow> exn + real" where
  "statistics_stdev xs =
     (if length xs < 2 then Inl StatisticsError
      else let m = sum_list xs / real (length xs)
           in Inr (sqrt (sum_list (map (\<lambda>x. (x - m)\<^sup>2) xs) / real (length xs - 1))))"

section \<open>DetectSpike\<close>

datatype severity = NONE | LOW | MEDIUM | HIGH | CRITICAL

record spike_report =
  is_spike :: bool
  deviation_amount :: real
  deviation_percent :: real
  z_score :: pyfloat
  spike_severity :: severity
  confidence :: real
  percent_exceeded :: bool
  z_score_exceeded :: bool
  within_95_percent :: bool
  within_99_percent :: bool

text \<open>
  Step 2 of \<^verbatim>\<open>DetectSpike.run\<close>, the body of its first \<^verbatim>\<open>try\<close>: \<open>None\<close> is the early
  return for a missing field.
\<close>

definition read_baseline :: "pylib \<Rightarrow> json \<Rightarrow> exn + (real \<times> real) option" where
  "read_baseline L baseline_data =
     and_then (py_contains baseline_data ''baseline_mean'') (\<lambda>has_mean.
       if \<not> has_mean then Inr None
       else and_then (py_contains baseline_data ''std_deviation'') (\<lambda>has_std.
         if \<not> has_std then Inr None
         else and_then (py_getitem baseline_data ''baseline_mean'') (\<lambda>m.
              and_then (py_float L m) (\<lambda>baseline_mean.
              and_then (py_getitem baseline_data ''std_deviation'') (\<lambda>s.
              and_then (py_float L s) (\<lambda>std_deviation.
                Inr (Some (baseline_mean, std_deviation))))))))"

text \<open>Step 4: the percentage deviation and the flag the code sets beside it.\<close>

definition calc_deviation_percent :: "real \<Rightarrow> real \<Rightarrow> real" where
  "calc_deviation_percent current_value baseline_mean =
     (if baseline_mean = 0 then (if 0 < current_value then 100 else 0)
      else (current_value - baseline_mean) / baseline_mean * 100)"

definition calc_is_spike_threshold :: "real \<Rightarrow> real \<Rightarrow> real \<Rightarrow> bool" where
  "calc_is_spike_threshold current_value baseline_mean threshold_percent =
     (if baseline_mean = 0 then (if 0 < current_value then True else False)
      else threshold_percent < calc_deviation_percent current_value baseline_mean)"

text \<open>Step 5: the Z-score.\<close>

definition calc_z_score :: "real \<Rightarrow> real \<Rightarrow> real \<Rightarrow> pyfloat" where
  "calc_z_score current_value baseline_mean std_deviation =
     (if std_deviation = 0 then (if current_value = baseline_mean then Fin 0 else PosInf)
      else Fin ((current_value - baseline_mean) / std_deviation))"

fun exceeds :: "pyfloat \<Rightarrow> real \<Rightarrow> bool" where
  "exceeds (Fin z) t = (t < z)"
| "exceeds PosInf t = True"

text \<open>Step 7.\<close>

definition calc_severity :: "real \<Rightarrow> severity" where
  "calc_severity dev =
     (if dev \<le> 20 then NONE
      else if dev \<le> 35 then LOW
      else if dev \<le> 50 then MEDIUM
      else if dev \<le> 100 then HIGH
      else CRITICAL)"

text \<open>Step 8: \<^verbatim>\<open>min(100, (abs(z_score) / z_score_threshold) * 50)\<close> and its sibling.\<close>

fun calc_z_score_confidence :: "pyfloat \<Rightarrow> real \<Rightarrow> real" where
  "calc_z_score_confidence (Fin z) z_score_threshold = min 100 (\<bar>z\<bar> / z_score_threshold * 50)"
| "calc_z_score_confidence PosInf z_score_threshold = 100"

definition calc_threshold_confidence :: "real \<Rightarrow> real \<Rightarrow> real" where
  "calc_threshold_confidence dev threshold_percent =
     min 100 (dev / threshold_percent * 50)"

text \<open>
  Step 9: \<^verbatim>\<open>ci.get("lower", 0) <= current_value <= ci.get("upper", float('inf'))\<close>; the
  chained comparison reads the upper bound only when the first comparison holds.
\<close>

definition within_interval :: "json \<Rightarrow> real \<Rightarrow> exn + bool" where
  "within_interval ci current_value =
     and_then (py_get ci ''lower'') (\<lambda>lo.
     and_then (case lo of None \<Rightarrow> Inr 0 | Some j \<Rightarrow> py_number j) (\<lambda>lower.
       if \<not> lower \<le> current_value then Inr False
       else and_then (py_get ci ''upper'') (\<lambda>up.
            case up of None \<Rightarrow> Inr True
            | Some j \<Rightarrow> and_then (py_number j) (\<lambda>upper. Inr (current_value \<le> upper)))))"

definition get_interval :: "json \<Rightarrow> string \<Rightarrow> exn + json" where
  "get_interval baseline_data name =
     and_then (py_get baseline_data ''confidence_intervals'') (\<lambda>cis.
     and_then (py_get (case cis of None \<Rightarrow> JObj [] | Some j \<Rightarrow> j) name) (\<lambda>ci.
       Inr (case ci of None \<Rightarrow> JObj [] | Some j \<Rightarrow> j)))"

text \<open>Steps 4 to 10, the body of the second \<^verbatim>\<open>try\<close>.\<close>

definition spike_body :: "json \<Rightarrow> real \<Rightarrow> real \<Rightarrow> real \<Rightarrow> real \<Rightarrow> real \<Rightarrow> exn + spike_report" where
  "spike_body baseline_data current_value baseline_mean std_deviation threshold_percent
       z_score_threshold =
     (let dev = calc_deviation_percent current_value baseline_mean;
          is_spike_threshold = calc_is_spike_threshold current_value baseline_mean threshold_percent;
          z = calc_z_score current_value baseline_mean std_deviation;
          is_spike_zscore = exceeds z z_score_threshold;
          z_score_confidence = calc_z_score_confidence z z_score_threshold;
          threshold_confidence = calc_threshold_confidence dev threshold_percent
      in and_then (get_interval baseline_data ''95_percent'') (\<lambda>within_95.
         and_then (get_interval baseline_data ''99_percent'') (\<lambda>within_99.
         and_then (within_interval within_95 current_value) (\<lambda>within_95_interval.
         and_then (within_interval within_99 current_value) (\<lambda>within_99_interval.
           Inr \<lparr> is_spike = is_spike_threshold \<and> is_spike_zscore,
                 deviation_amount = py_round (current_value - baseline_mean) 2,
                 deviation_percent = py_round dev 2,
                 z_score = py_round_f z 2,
                 spike_severity = calc_severity dev,
                 confidence = py_round ((z_score_confidence + threshold_confidence) / 2) 1,
                 percent_exceeded = is_spike_threshold,
                 z_score_exceeded = is_spike_zscore,
                 within_95_percent = within_95_interval,
                 within_99_percent = within_99_interval \<rparr>)))))"

text \<open>
  \<^verbatim>\<open>DetectSpike.run\<close>. The first \<^verbatim>\<open>try\<close> catches \<^verbatim>\<open>JSONDecodeError\<close>, \<^verbatim>\<open>ValueError\<close> and
  \<^verbatim>\<open>KeyError\<close> only; the second catches every exception.
\<close>

definition DetectSpike_run ::
    "pylib \<Rightarrow> real \<Rightarrow> json option \<Rightarrow> real \<Rightarrow> real \<Rightarrow> exn + spike_report returned" where
  "DetectSpike_run L current_value baseline threshold_percent z_score_threshold =
     (if current_value < 0 then Inr (ErrorText ''Error: current_value cannot be negative.'')
      else case baseline of
        None \<Rightarrow> Inr (ErrorText ''Error: Invalid JSON in baseline parameter.'')
      | Some baseline_data \<Rightarrow>
          (case read_baseline L baseline_data of
             Inl e \<Rightarrow>
               if e = ValueError \<or> e = KeyError
               then Inr (ErrorText ''Error: Invalid baseline data structure.'')
               else Inl e
           | Inr None \<Rightarrow>
               Inr (ErrorText ''Error: baseline must contain baseline_mean and std_deviation fields.'')
           | Inr (Some (baseline_mean, std_deviation)) \<Rightarrow>
               if threshold_percent \<le> 0
               then Inr (ErrorText ''Error: threshold_percent must be greater than zero.'')
               else if z_score_threshold \<le> 0
               then Inr (ErrorText ''Error: z_score_threshold must be greater than zero.'')
               else (case spike_body baseline_data current_value baseline_mean std_deviation
                            threshold_percent z_score_threshold of
                       Inl e \<Rightarrow> Inr (ErrorText ''Error detecting spike'')
                     | Inr r \<Rightarrow> Inr (Result r))))"

section \<open>Reading a cost series\<close>

record data_point =
  date :: date
  cost :: real

text \<open>
  The loop that the three series tools run over the parsed array. An entry that lacks a key
  is passed over; so is one whose cost or date raises \<^verbatim>\<open>ValueError\<close> or \<^verbatim>\<open>TypeError\<close>
  inside the inner \<^verbatim>\<open>try\<close>. The key test itself stands outside that \<^verbatim>\<open>try\<close>.
\<close>

definition read_entry :: "pylib \<Rightarrow> json \<Rightarrow> exn + data_point" where
  "read_entry L entry =
     and_then (py_getitem entry ''cost'') (\<lambda>c.
     and_then (py_float L c) (\<lambda>x.
     and_then (py_getitem entry ''date'') (\<lambda>date_str.
     and_then (py_strptime L date_str) (\<lambda>date_obj.
       Inr \<lparr> date = date_obj, cost = x \<rparr>))))"

definition collect_entry :: "pylib \<Rightarrow> json \<Rightarrow> exn + data_point option" where
  "collect_entry L entry =
     and_then (py_contains entry ''cost'') (\<lambda>has_cost.
       if \<not> has_cost then Inr None
       else and_then (py_contains entry ''date'') (\<lambda>has_date.
         if \<not> has_date then Inr None
         else (case read_entry L entry of
                 Inl e \<Rightarrow> if e = ValueError \<or> e = TypeError then Inr None else Inl e
               | Inr p \<Rightarrow> Inr (Some p))))"

fun collect_entries :: "pylib \<Rightarrow> json list \<Rightarrow> exn + data_point list" where
  "collect_entries L [] = Inr []"
| "collect_entries L (entry # rest) =
     and_then (collect_entry L entry) (\<lambda>p.
     and_then (collect_entries L rest) (\<lambda>ps.
       Inr (case p of None \<Rightarrow> ps | Some q \<Rightarrow> q # ps)))"

text \<open>\<^verbatim>\<open>data_points.sort(key=lambda x: x["date"])\<close>: a stable sort on the date.\<close>

definition sort_by_date :: "data_point list \<Rightarrow> data_point list" where
  "sort_by_date points = sort_key date points"

fun map_exn :: "('a \<Rightarrow> exn + 'b) \<Rightarrow> 'a list \<Rightarrow> exn + 'b list" where
  "map_exn f [] = Inr []"
| "map_exn f (x # xs) =
     and_then (f x) (\<lambda>y. and_then (map_exn f xs) (\<lambda>ys. Inr (y # ys)))"

text \<open>\<^verbatim>\<open>xs[0]\<close> and \<^verbatim>\<open>xs[-1]\<close>.\<close>

definition first_and_last :: "'a list \<Rightarrow> exn + ('a \<times> 'a)" where
  "first_and_last xs = (if xs = [] then Inl IndexError else Inr (hd xs, last xs))"

section \<open>CalculateBaseline\<close>

record baseline_report =
  baseline_mean :: real
  std_deviation :: real
  coefficient_of_variation :: real
  ci95_lower :: real
  ci95_upper :: real
  ci99_lower :: real
  ci99_upper :: real
  seasonal_factors :: "real list"
  sample_size :: nat
  window_days :: int
  date_range :: "date \<times> date"
  seasonal_adjustment_enabled :: bool

text \<open>\<^verbatim>\<open>date.weekday()\<close>: Monday is 0.\<close>

definition weekday :: "date \<Rightarrow> int" where
  "weekday d = (d + 6) mod 7"

text \<open>Step 6, one day of the week.\<close>

definition seasonal_factor :: "data_point list \<Rightarrow> real \<Rightarrow> int \<Rightarrow> exn + real" where
  "seasonal_factor window mean_cost day_num =
     (let day_costs = map cost (filter (\<lambda>p. weekday (date p) = day_num) window)
      in if day_costs \<noteq> []
         then and_then (statistics_mean day_costs) (\<lambda>day_avg.
                Inr (if 0 < mean_cost then py_round (day_avg / mean_cost) 3 else 1))
         else Inr 1)"

text \<open>
  Steps 3 to 10, the body of the second \<^verbatim>\<open>try\<close>. The window is cut from the entries in
  the order the loop appended them.
\<close>

definition baseline_body :: "pylib \<Rightarrow> json list \<Rightarrow> int \<Rightarrow> bool \<Rightarrow> exn + baseline_report returned" where
  "baseline_body L history w enable_seasonal_adjustment =
     and_then (collect_entries L history) (\<lambda>points.
       if length points < 14
       then Inr (ErrorText ''Error: Only N valid cost entries found after validation.'')
       else
         (let window = last_n w points;
              window_costs = map cost window;
              window_dates = map date window
          in and_then (statistics_mean window_costs) (\<lambda>m.
             and_then (if 1 < length window_costs then statistics_stdev window_costs else Inr 0) (\<lambda>sd.
             and_then (if enable_seasonal_adjustment \<and> 14 \<le> length window_costs
                       then map_exn (seasonal_factor window m) [0, 1, 2, 3, 4, 5, 6]
                       else Inr [1, 1, 1, 1, 1, 1, 1]) (\<lambda>factors.
             (let confidence_95_lower = m - 2 * sd;
                  confidence_95_upper = m + 2 * sd;
                  confidence_99_lower = m - 3 * sd;
                  confidence_99_upper = m + 3 * sd;
                  cv = (if 0 < m then sd / m * 100 else 0)
              in and_then (first_and_last window_dates) (\<lambda>range.
                   Inr (Result
                     \<lparr> baseline_mean = py_round m 2,
                       std_deviation = py_round sd 2,
                       coefficient_of_variation = py_round cv 2,
                       ci95_lower = py_round (max 0 confidence_95_lower) 2,
                       ci95_upper = py_round confidence_95_upper 2,
                       ci99_lower = py_round (max 0 confidence_99_lower) 2,
                       ci99_upper = py_round confidence_99_upper 2,
                       seasonal_factors = factors,
                       sample_size = length window_costs,
                       window_days = w,
                       date_range = range,
                       seasonal_adjustment_enabled = enable_seasonal_adjustment \<rparr>))))))))"

text \<open>
  \<^verbatim>\<open>CalculateBaseline.run\<close>. A window longer than the parsed array is cut to its length
  (the assignment to \<^verbatim>\<open>self.window_days\<close>).
\<close>

definition CalculateBaseline_run ::
    "pylib \<Rightarrow> json option \<Rightarrow> int \<Rightarrow> bool \<Rightarrow> exn + baseline_report returned" where
  "CalculateBaseline_run L cost_history window_days_arg enable_seasonal_adjustment =
     (case cost_history of
        None \<Rightarrow> Inr (ErrorText ''Error: Invalid JSON in cost_history.'')
      | Some (JArr history) \<Rightarrow>
          if length history < 14
          then Inr (ErrorText ''Error: Insufficient historical data.'')
          else if window_days_arg < 7
          then Inr (ErrorText ''Error: window_days must be at least 7 for meaningful baseline.'')
          else
            (let w = (if int (length history) < window_days_arg then int (length history)
                      else window_days_arg)
             in case baseline_body L history w enable_seasonal_adjustment of
                  Inl e \<Rightarrow>
                    if e = StatisticsError then Inr (ErrorText ''Error calculating statistics'')
                    else Inr (ErrorText ''Error calculating baseline'')
                | Inr r \<Rightarrow> Inr r)
      | Some other \<Rightarrow> Inr (ErrorText ''Error: cost_history must be JSON array of objects''))"

section \<open>Least squares over the position in the series\<close>

text \<open>
  \<^verbatim>\<open>DetectTrendChange\<close> and \<^verbatim>\<open>CreateForecast\<close> write the same sums, over
  \<^verbatim>\<open>x_values = list(range(n))\<close>.
\<close>

definition x_values :: "nat \<Rightarrow> real list" where
  "x_values n = map real [0..<n]"

definition reg_numerator :: "real list \<Rightarrow> real list \<Rightarrow> real \<Rightarrow> real \<Rightarrow> real" where
  "reg_numerator xs ys mean_x mean_y =
     sum_list (map (\<lambda>(x, y). (x - mean_x) * (y - mean_y)) (zip xs ys))"

definition reg_denominator :: "real list \<Rightarrow> real \<Rightarrow> real" where
  "reg_denominator xs mean_x = sum_list (map (\<lambda>x. (x - mean_x)\<^sup>2) xs)"

definition reg_ss_total :: "real list \<Rightarrow> real \<Rightarrow> real" where
  "reg_ss_total ys mean_y = sum_list (map (\<lambda>y. (y - mean_y)\<^sup>2) ys)"

definition reg_ss_residual :: "real list \<Rightarrow> real list \<Rightarrow> real" where
  "reg_ss_residual ys predicted_values =
     sum_list (map (\<lambda>(y, pred). (y - pred)\<^sup>2) (zip ys predicted_values))"

datatype direction = Stable | Increasing | Decreasing

section \<open>DetectTrendChange\<close>

record trend_report =
  trend_direction :: direction
  slope :: real
  intercept :: real
  r_squared :: real
  is_significant :: bool
  trend_confidence :: real
  projection_7_day :: real
  projection_30_day :: real
  projection_90_day :: real
  days_analyzed :: nat
  analysis_period :: "data_point \<times> data_point"

text \<open>Steps 3 and 4: the entries, sorted by date, and the trailing \<^verbatim>\<open>lookback_days\<close>.\<close>

definition lookback_window :: "int \<Rightarrow> data_point list \<Rightarrow> data_point list" where
  "lookback_window lookback_days points =
     (let data_points = sort_by_date points;
          lookback_data = last_n lookback_days data_points
      in if length lookback_data < 7 then data_points else lookback_data)"

text \<open>Steps 5 and 6: slope, intercept and R-squared; \<open>None\<close> is the zero denominator.\<close>

definition trend_fit :: "real list \<Rightarrow> exn + (real \<times> real \<times> real) option" where
  "trend_fit ys =
     (let n = length ys;
          xs = x_values n
      in and_then (statistics_mean xs) (\<lambda>mean_x.
         and_then (statistics_mean ys) (\<lambda>mean_y.
         (let numerator = reg_numerator xs ys mean_x mean_y;
              denominator = reg_denominator xs mean_x
          in if denominator = 0 then Inr None
             else
               (let m = numerator / denominator;
                    b = mean_y - m * mean_x;
                    predicted_values = map (\<lambda>x. m * x + b) xs;
                    ss_total = reg_ss_total ys mean_y;
                    ss_residual = reg_ss_residual ys predicted_values;
                    r2 = (if ss_total = 0 then 0 else 1 - ss_residual / ss_total)
                in Inr (Some (m, b, r2)))))))"

text \<open>Steps 7 to 11.\<close>

definition trend_report_of ::
    "real \<Rightarrow> real \<Rightarrow> real \<Rightarrow> real \<Rightarrow> data_point list \<Rightarrow> exn + trend_report" where
  "trend_report_of m b r2 min_slope_threshold lookback_data =
     (let n = length lookback_data;
          dir = (if \<bar>m\<bar> < min_slope_threshold then Stable
                 else if 0 < m then Increasing else Decreasing);
          projected_30day = m * 30;
          r_squared_confidence = r2 * 70;
          sample_size_confidence = min 30 (real n / 14 * 30)
      in and_then (first_and_last lookback_data) (\<lambda>ends.
           Inr \<lparr> trend_direction = dir,
                 slope = py_round m 2,
                 intercept = py_round b 2,
                 r_squared = py_round r2 3,
                 is_significant =
                   (1 / 2 < r2 \<and> min_slope_threshold \<le> \<bar>m\<bar> \<and> 100 < \<bar>projected_30day\<bar>),
                 trend_confidence = py_round (r_squared_confidence + sample_size_confidence) 1,
                 projection_7_day = py_round (m * 7) 2,
                 projection_30_day = py_round projected_30day 2,
                 projection_90_day = py_round (m * 90) 2,
                 days_analyzed = n,
                 analysis_period = ends \<rparr>))"

text \<open>Steps 3 to 11, the body of the second \<^verbatim>\<open>try\<close>.\<close>

definition trend_body :: "pylib \<Rightarrow> json list \<Rightarrow> int \<Rightarrow> real \<Rightarrow> exn + trend_report returned" where
  "trend_body L history lookback_days min_slope_threshold =
     and_then (collect_entries L history) (\<lambda>points.
       if length points < 7
       then Inr (ErrorText ''Error: Only N valid cost entries found after validation.'')
       else
         (let lookback_data = lookback_window lookback_days points
          in and_then (trend_fit (map cost lookback_data)) (\<lambda>fit.
               case fit of
                 None \<Rightarrow> Inr (ErrorText ''Error: Cannot calculate trend - all dates are identical.'')
               | Some (m, b, r2) \<Rightarrow>
                   and_then (trend_report_of m b r2 min_slope_threshold lookback_data) (\<lambda>r.
                     Inr (Result r)))))"

definition DetectTrendChange_run ::
    "pylib \<Rightarrow> json option \<Rightarrow> int \<Rightarrow> real \<Rightarrow> exn + trend_report returned" where
  "DetectTrendChange_run L cost_history lookback_days min_slope_threshold =
     (case cost_history of
        None \<Rightarrow> Inr (ErrorText ''Error: Invalid JSON in cost_history.'')
      | Some (JArr history) \<Rightarrow>
          if length history < 7
          then Inr (ErrorText ''Error: Insufficient data for trend analysis.'')
          else if lookback_days < 7
          then Inr (ErrorText ''Error: lookback_days must be at least 7 for meaningful trend analysis.'')
          else if min_slope_threshold < 0
          then Inr (ErrorText ''Error: min_slope_threshold must be positive.'')
          else (case trend_body L history lookback_days min_slope_threshold of
                  Inl e \<Rightarrow>
                    if e = StatisticsError
                    then Inr (ErrorText ''Error calculating trend statistics'')
                    else Inr (ErrorText ''Error detecting trend change'')
                | Inr r \<Rightarrow> Inr r)
      | Some other \<Rightarrow> Inr (ErrorText ''Error: cost_history must be JSON array of objects''))"

section \<open>CreateForecast\<close>

datatype strength = Strong | Moderate | Weak

datatype risk_factor = LowRSquared | LimitedHistory | HighVolatility | RapidTrend

record forecast_point =
  forecast_date :: date
  day_offset :: int
  forecast_cost :: real
  ci_lower :: real
  ci_upper :: real

record forecast_report =
  total_forecasted_cost :: real
  avg_daily_forecast :: real
  forecast_direction :: direction
  forecast_strength :: strength
  history_days :: nat
  avg_daily_cost :: real
  history_std_deviation :: real
  daily_change_rate :: real
  forecast_r_squared :: real
  percent_change_vs_historical :: real
  forecasts :: "forecast_point list"
  monthly_30_day_total :: real
  monthly_30_day_range :: "(real \<times> real) option"
  risk_factors :: "risk_factor list"

text \<open>\<^verbatim>\<open>valid_confidence_levels\<close> and the \<^verbatim>\<open>z_scores\<close> dictionary.\<close>

definition valid_confidence_levels :: "real list" where
  "valid_confidence_levels = [80 / 100, 90 / 100, 95 / 100, 99 / 100]"

definition z_scores :: "(real \<times> real) list" where
  "z_scores = [(80 / 100, 128 / 100), (90 / 100, 1645 / 1000), (95 / 100, 196 / 100),
               (99 / 100, 2576 / 1000)]"

definition z_lookup :: "real \<Rightarrow> exn + real" where
  "z_lookup confidence_level =
     (case map_of z_scores confidence_level of None \<Rightarrow> Inl KeyError | Some z \<Rightarrow> Inr z)"

text \<open>The largest ordinal a \<^verbatim>\<open>datetime\<close> holds (9999-12-31).\<close>

definition max_ordinal :: int where
  "max_ordinal = 3652059"

definition add_days :: "date \<Rightarrow> int \<Rightarrow> exn + date" where
  "add_days d k = (if max_ordinal < d + k \<or> d + k < 1 then Inl OverflowError else Inr (d + k))"

text \<open>Step 7, the body of the loop over \<^verbatim>\<open>day\<close>.\<close>

definition interval_width :: "real \<Rightarrow> real \<Rightarrow> int \<Rightarrow> real" where
  "interval_width z std_dev day =
     (let time_uncertainty_factor = 1 + real_of_int day / 30
      in z * std_dev * time_uncertainty_factor)"

definition forecast_for_day ::
    "real \<Rightarrow> real \<Rightarrow> real \<Rightarrow> real \<Rightarrow> nat \<Rightarrow> date \<Rightarrow> int \<Rightarrow> exn + forecast_point" where
  "forecast_for_day m b z std_dev n last_date day =
     and_then (add_days last_date day) (\<lambda>fdate.
       (let x_forecast = real n + real_of_int day - 1;
            point_forecast = m * x_forecast + b;
            width = interval_width z std_dev day;
            lower_bound = max 0 (point_forecast - width);
            upper_bound = point_forecast + width
        in Inr \<lparr> forecast_date = fdate,
                 day_offset = day,
                 forecast_cost = py_round point_forecast 2,
                 ci_lower = py_round lower_bound 2,
                 ci_upper = py_round upper_bound 2 \<rparr>))"

text \<open>Step 10. The volatility test divides by the mean without a guard.\<close>

definition find_risk_factors :: "real \<Rightarrow> nat \<Rightarrow> real \<Rightarrow> real \<Rightarrow> real \<Rightarrow> exn + risk_factor list" where
  "find_risk_factors r2 n std_dev mean_cost m =
     and_then (py_div std_dev mean_cost) (\<lambda>ratio.
       Inr ((if r2 < 1 / 2 then [LowRSquared] else [])
          @ (if n < 60 then [LimitedHistory] else [])
          @ (if 3 / 10 < ratio then [HighVolatility] else [])
          @ (if mean_cost * (5 / 100) < \<bar>m\<bar> then [RapidTrend] else [])))"

text \<open>Steps 5 and 6: slope, intercept and R-squared; \<open>None\<close> is the zero denominator.\<close>

definition forecast_fit :: "real list \<Rightarrow> exn + (real \<times> real \<times> real) option" where
  "forecast_fit costs =
     (let n = length costs;
          xs = x_values n
      in and_then (statistics_mean xs) (\<lambda>mean_x.
         and_then (statistics_mean costs) (\<lambda>mean_y.
         (let numerator = reg_numerator xs costs mean_x mean_y;
              denominator = reg_denominator xs mean_x
          in if denominator = 0 then Inr None
             else
               (let m = numerator / denominator;
                    b = mean_y - m * mean_x;
                    predicted_values = map (\<lambda>x. m * x + b) xs;
                    ss_total = reg_ss_total costs mean_y;
                    ss_residual = reg_ss_residual costs predicted_values;
                    r2 = (if 0 < ss_total then 1 - ss_residual / ss_total else 0)
                in Inr (Some (m, b, r2)))))))"

text \<open>Steps 8 to 11: the aggregates, the trend labels, the risk factors and the result.\<close>

definition forecast_report_of ::
    "forecast_point list \<Rightarrow> real \<Rightarrow> real \<Rightarrow> real \<Rightarrow> real \<Rightarrow> nat \<Rightarrow> exn + forecast_report" where
  "forecast_report_of all_forecasts mean_cost std_dev m r2 n =
     (let total = sum_list (map forecast_cost all_forecasts)
      in and_then (py_div total (real (length all_forecasts))) (\<lambda>avg_daily.
         (let percent_change =
                (if 0 < mean_cost then (avg_daily - mean_cost) / mean_cost * 100 else 0);
              dir = (if \<bar>m\<bar> < mean_cost * (1 / 100) then Stable
                     else if 0 < m then Increasing else Decreasing);
              str = (if 7 / 10 < r2 then Strong else if 4 / 10 < r2 then Moderate else Weak)
          in and_then (find_risk_factors r2 n std_dev mean_cost m) (\<lambda>risks.
               Inr \<lparr> total_forecasted_cost = py_round total 2,
                     avg_daily_forecast = py_round avg_daily 2,
                     forecast_direction = dir,
                     forecast_strength = str,
                     history_days = n,
                     avg_daily_cost = py_round mean_cost 2,
                     history_std_deviation = py_round std_dev 2,
                     daily_change_rate = py_round m 2,
                     forecast_r_squared = py_round r2 3,
                     percent_change_vs_historical = py_round percent_change 1,
                     forecasts = take 7 all_forecasts,
                     monthly_30_day_total =
                       (if 30 \<le> length all_forecasts
                        then py_round (sum_list (map forecast_cost (take 30 all_forecasts))) 2
                        else total),
                     monthly_30_day_range =
                       (if 30 \<le> length all_forecasts
                        then Some (py_round (sum_list (map ci_lower (take 30 all_forecasts))) 2,
                                   py_round (sum_list (map ci_upper (take 30 all_forecasts))) 2)
                        else None),
                     risk_factors = risks \<rparr>))))"

text \<open>Steps 3 to 11, the body of the second \<^verbatim>\<open>try\<close>.\<close>

definition forecast_body ::
    "pylib \<Rightarrow> json list \<Rightarrow> int \<Rightarrow> real \<Rightarrow> exn + forecast_report returned" where
  "forecast_body L history forecast_days confidence_level =
     and_then (collect_entries L history) (\<lambda>points.
       if length points < 30
       then Inr (ErrorText ''Error: Only N valid data points after validation.'')
       else
         (let data_points = sort_by_date points;
              costs = map cost data_points
          in and_then (statistics_mean costs) (\<lambda>mean_cost.
             and_then (if 1 < length costs then statistics_stdev costs else Inr 0) (\<lambda>std_dev.
             and_then (forecast_fit costs) (\<lambda>fit.
               case fit of
                 None \<Rightarrow>
                   Inr (ErrorText ''Error: Cannot calculate trend - insufficient variance in data.'')
               | Some (m, b, r2) \<Rightarrow>
                   and_then (first_and_last data_points) (\<lambda>ends.
                   and_then (z_lookup confidence_level) (\<lambda>z.
                   and_then (map_exn (forecast_for_day m b z std_dev (length data_points)
                                        (date (snd ends))) [1..forecast_days]) (\<lambda>all_forecasts.
                   and_then (forecast_report_of all_forecasts mean_cost std_dev m r2
                               (length data_points)) (\<lambda>r.
                     Inr (Result r))))))))))"

definition CreateForecast_run ::
    "pylib \<Rightarrow> json option \<Rightarrow> int \<Rightarrow> real \<Rightarrow> exn + forecast_report returned" where
  "CreateForecast_run L historical_data forecast_days confidence_level =
     (if forecast_days < 1 then Inr (ErrorText ''Error: forecast_days must be at least 1.'')
      else if 90 < forecast_days
      then Inr (ErrorText ''Warning: forecast_days > 90 may produce unreliable predictions.'')
      else if confidence_level \<notin> set valid_confidence_levels
      then Inr (ErrorText ''Error: Invalid confidence_level'')
      else case historical_data of
        None \<Rightarrow> Inr (ErrorText ''Error: Invalid JSON in historical_data.'')
      | Some (JArr history) \<Rightarrow>
          if length history < 30
          then Inr (ErrorText ''Error: Insufficient historical data.'')
          else (case forecast_body L history forecast_days confidence_level of
                  Inl e \<Rightarrow> Inr (ErrorText ''Error creating forecast'')
                | Inr r \<Rightarrow> Inr r)
      | Some other \<Rightarrow> Inr (ErrorText ''Error: historical_data must be JSON array of objects''))"

section \<open>Example inputs\<close>

text \<open>
  The inputs at which the theorems below are evaluated. The examples use dates of January
  2025 only and write every cost as a JSON number, so the library parsers are given on
  those date strings: \<^verbatim>\<open>strptime\<close> by its table, \<^verbatim>\<open>float\<close> on strings is never reached.
\<close>

definition january_2025 :: "(string \<times> date) list" where
  "january_2025 =
     [(''2025-01-01'', 739252), (''2025-01-02'', 739253), (''2025-01-03'', 739254),
       (''2025-01-04'', 739255), (''2025-01-05'', 739256), (''2025-01-06'', 739257),
       (''2025-01-07'', 739258), (''2025-01-08'', 739259), (''2025-01-09'', 739260),
       (''2025-01-10'', 739261), (''2025-01-11'', 739262), (''2025-01-12'', 739263),
       (''2025-01-13'', 739264), (''2025-01-14'', 739265), (''2025-01-15'', 739266),
       (''2025-01-16'', 739267), (''2025-01-17'', 739268), (''2025-01-18'', 739269),
       (''2025-01-19'', 739270), (''2025-01-20'', 739271), (''2025-01-21'', 739272),
       (''2025-01-22'', 739273), (''2025-01-23'', 739274), (''2025-01-24'', 739275),
       (''2025-01-25'', 739276), (''2025-01-26'', 739277), (''2025-01-27'', 739278),
       (''2025-01-28'', 739279), (''2025-01-29'', 739280), (''2025-01-30'', 739281),
       (''2025-01-31'', 739282)]"

definition example_lib :: pylib where
  "example_lib = \<lparr> float_of_str = (\<lambda>s. None), strptime_ymd = map_of january_2025 \<rparr>"

definition entry :: "string \<Rightarrow> real \<Rightarrow> json" where
  "entry d c = JObj [(''date'', JStr d), (''cost'', JNum c)]"

definition descending_history :: "json list" where
  "descending_history =
     [entry ''2025-01-14'' 100, entry ''2025-01-13'' 100, entry ''2025-01-12'' 100,
      entry ''2025-01-11'' 100, entry ''2025-01-10'' 100, entry ''2025-01-09'' 100,
      entry ''2025-01-08'' 100, entry ''2025-01-07'' 0, entry ''2025-01-06'' 0,
      entry ''2025-01-05'' 0, entry ''2025-01-04'' 0, entry ''2025-01-03'' 0,
      entry ''2025-01-02'' 0, entry ''2025-01-01'' 0]"

definition constant_history :: "real \<Rightarrow> json list" where
  "constant_history c = map (\<lambda>d. entry d c) (map fst (take 30 january_2025))"

text \<open>The points that the entry loop collects from \<open>constant_history c\<close>.\<close>

definition january_points :: "real \<Rightarrow> data_point list" where
  "january_points c = map (\<lambda>d. \<lparr> date = d, cost = c \<rparr>) (map snd (take 30 january_2025))"

definition varied_history :: "json list" where
  "varied_history =
     [entry ''2025-01-01'' 15, entry ''2025-01-02'' 5, entry ''2025-01-03'' 11,
      entry ''2025-01-04'' 9, entry ''2025-01-05'' 10, entry ''2025-01-06'' 10,
      entry ''2025-01-07'' 10, entry ''2025-01-08'' 10, entry ''2025-01-09'' 10,
      entry ''2025-01-10'' 10, entry ''2025-01-11'' 10, entry ''2025-01-12'' 10,
      entry ''2025-01-13'' 10, entry ''2025-01-14'' 10]"

text \<open>The baseline of the tool's own test block.\<close>

definition sample_baseline :: json where
  "sample_baseline =
     JObj [(''baseline_mean'', JNum 1000), (''std_deviation'', JNum 50),
           (''confidence_intervals'',
            JObj [(''95_percent'', JObj [(''lower'', JNum 900), (''upper'', JNum 1100)]),
                  (''99_percent'', JObj [(''lower'', JNum 850), (''upper'', JNum 1150)])])]"

text \<open>
  Thirty costs with mean 10 and sample deviation 2, mirrored about the middle of the
  series so that the fitted slope is 0; the entries and the points that carry them.
\<close>

definition spread_costs :: "real list" where
  "spread_costs = [15, 5, 12, 8] @ replicate 22 10 @ [8, 12, 5, 15]"

definition spread_history :: "json list" where
  "spread_history =
     map (\<lambda>(d, c). entry d c) (zip (map fst (take 30 january_2025)) spread_costs)"

definition spread_points :: "data_point list" where
  "spread_points =
     map (\<lambda>(d, c). \<lparr> date = d, cost = c \<rparr>) (zip (map snd (take 30 january_2025)) spread_costs)"

text \<open>Seven entries, two of them dated 3 January.\<close>

definition duplicate_history :: "json list" where
  "duplicate_history =
     [entry ''2025-01-01'' 10, entry ''2025-01-03'' 1, entry ''2025-01-02'' 10,
      entry ''2025-01-03'' 2, entry ''2025-01-04'' 10, entry ''2025-01-05'' 10,
      entry ''2025-01-06'' 10]"

text \<open>Thirty non-negative costs that fall by 10 a day.\<close>

definition falling_costs :: "real list" where
  "falling_costs = [290, 280, 270, 260, 250, 240, 230, 220, 210, 200, 190, 180, 170, 160, 150, 140, 130, 120, 110, 100, 90, 80, 70, 60, 50, 40, 30, 20, 10, 0]"

section \<open>Properties of the library operations\<close>

lemma and_then_Inr: "and_then m f = Inr y \<longleftrightarrow> (\<exists>x. m = Inr x \<and> f x = Inr y)"
  by (cases m) (simp_all add: and_then_def)

lemma and_then_simps [simp]: "and_then (Inr x) f = f x" "and_then (Inl e) f = Inl e"
  by (simp_all add: and_then_def)

lemma round_half_even_mono:
  assumes "x \<le> y"
  shows "round_half_even x \<le> round_half_even y"
proof -
  have fl: "\<lfloor>x\<rfloor> \<le> \<lfloor>y\<rfloor>" using assms by (rule floor_mono)
  have bx: "round_half_even x \<le> \<lfloor>x\<rfloor> + 1"
    by (simp add: round_half_even_def Let_def)
  have lb: "\<lfloor>y\<rfloor> \<le> round_half_even y"
    by (simp add: round_half_even_def Let_def)
  show ?thesis
  proof (cases "\<lfloor>x\<rfloor> = \<lfloor>y\<rfloor>")
    case True
    then have "x - of_int \<lfloor>x\<rfloor> \<le> y - of_int \<lfloor>y\<rfloor>" using assms by simp
    then show ?thesis using True
      by (auto simp add: round_half_even_def Let_def)
  next
    case False
    then have "\<lfloor>x\<rfloor> + 1 \<le> \<lfloor>y\<rfloor>" using fl by linarith
    then show ?thesis using bx lb by linarith
  qed
qed

lemma py_round_mono: "x \<le> y \<Longrightarrow> py_round x n \<le> py_round y n"
  unfolding py_round_def
  by (intro divide_right_mono of_int_le_iff[THEN iffD2] round_half_even_mono mult_right_mono)
    simp_all

lemma round_half_even_of_int [simp]: "round_half_even (of_int k) = k"
  by (simp add: round_half_even_def Let_def)

lemma py_round_of_int: "py_round (of_int k) n = of_int k"
proof -
  have "of_int k * (10::real) ^ n = of_int (k * 10 ^ n)" by simp
  then have "round_half_even (of_int k * 10 ^ n) = k * 10 ^ n"
    by (metis round_half_even_of_int)
  then show ?thesis by (simp add: py_round_def)
qed

lemma py_round_zero [simp]: "py_round 0 n = 0"
  using py_round_of_int[of 0 n] by simp

lemma py_round_100 [simp]: "py_round 100 n = 100"
  using py_round_of_int[of 100 n] by simp

lemma py_round_nonneg: "0 \<le> x \<Longrightarrow> 0 \<le> py_round x n"
  using py_round_mono[of 0 x n] by simp

lemma py_round_le_100: "x \<le> 100 \<Longrightarrow> py_round x n \<le> 100"
  using py_round_mono[of x 100 n] by simp

lemma sum_list_squares_nonneg: "0 \<le> sum_list (map (\<lambda>x::real. (x - m)\<^sup>2) xs)"
  by (rule sum_list_nonneg) auto

lemma statistics_stdev_nonneg: "statistics_stdev xs = Inr sd \<Longrightarrow> 0 \<le> sd"
  by (auto simp add: statistics_stdev_def Let_def sum_list_squares_nonneg split: if_splits)

lemmas lib_simps = example_lib_def january_2025_def entry_def
lemmas entry_simps = collect_entry_def read_entry_def
lemmas stat_simps = statistics_mean_def statistics_stdev_def
lemmas round_simps = py_round_def round_half_even_def Let_def

section \<open>DetectSpike: the decision, its confidence, and what it raises\<close>

lemma DetectSpike_run_Result:
  assumes "DetectSpike_run L v (Some bd) tp zt = Inr (Result r)"
  shows "\<exists>m s. read_baseline L bd = Inr (Some (m, s)) \<and> 0 \<le> v \<and> 0 < tp \<and> 0 < zt
           \<and> spike_body bd v m s tp zt = Inr r"
  using assms
  by (auto simp add: DetectSpike_run_def split: if_splits sum.splits option.splits)

lemma spike_body_fields:
  assumes "spike_body bd v m s tp zt = Inr r"
  shows "is_spike r = (calc_is_spike_threshold v m tp \<and> exceeds (calc_z_score v m s) zt)"
    and "confidence r = py_round ((calc_z_score_confidence (calc_z_score v m s) zt
            + calc_threshold_confidence (calc_deviation_percent v m) tp) / 2) 1"
  using assms
  by (auto simp add: spike_body_def Let_def and_then_Inr)

lemma deviation_above_threshold:
  fixes v m tp :: real
  assumes "tp < (v - m) / m * 100" "0 < tp" "0 \<le> v"
  shows "0 < m \<and> m < v"
proof -
  define q where "q = (v - m) / m"
  have "tp < q * 100" using assms(1) by (simp only: q_def)
  then have "0 < q" using assms(2) by linarith
  then have "(0 < v - m \<and> 0 < m) \<or> (v - m < 0 \<and> m < 0)"
    unfolding q_def by (simp only: zero_less_divide_iff)
  then show ?thesis using assms(3) by auto
qed

lemma z_above_threshold:
  fixes v m s zt :: real
  assumes "zt < (v - m) / s" "0 < zt" "m < v"
  shows "0 < s"
proof -
  have "0 < (v - m) / s" using assms(1,2) by linarith
  then have "(0 < v - m \<and> 0 < s) \<or> (v - m < 0 \<and> s < 0)" by (simp only: zero_less_divide_iff)
  then show ?thesis using assms(3) by auto
qed

lemmas spike_simps = DetectSpike_run_def read_baseline_def spike_body_def Let_def
  calc_deviation_percent_def calc_is_spike_threshold_def calc_z_score_def calc_severity_def
  calc_threshold_confidence_def get_interval_def within_interval_def py_round_def
  round_half_even_def sample_baseline_def

lemma read_sample_baseline: "read_baseline example_lib sample_baseline = Inr (Some (1000, 50))"
  by (simp add: read_baseline_def sample_baseline_def)

lemma DetectSpike_1250:
  "DetectSpike_run example_lib 1250 (Some sample_baseline) 20 2 =
     Inr (Result \<lparr> is_spike = True, deviation_amount = 250, deviation_percent = 25,
                    z_score = Fin 5, spike_severity = LOW, confidence = 812 / 10,
                    percent_exceeded = True, z_score_exceeded = True,
                    within_95_percent = False, within_99_percent = False \<rparr>)"
  by (simp add: spike_simps)

lemma DetectSpike_1400:
  "DetectSpike_run example_lib 1400 (Some sample_baseline) 20 2 =
     Inr (Result \<lparr> is_spike = True, deviation_amount = 400, deviation_percent = 40,
                    z_score = Fin 8, spike_severity = MEDIUM, confidence = 100,
                    percent_exceeded = True, z_score_exceeded = True,
                    within_95_percent = False, within_99_percent = False \<rparr>)"
  by (simp add: spike_simps)

lemma DetectSpike_1100:
  "DetectSpike_run example_lib 1100 (Some sample_baseline) 20 2 =
     Inr (Result \<lparr> is_spike = False, deviation_amount = 100, deviation_percent = 10,
                    z_score = Fin 2, spike_severity = NONE, confidence = 375 / 10,
                    percent_exceeded = False, z_score_exceeded = False,
                    within_95_percent = True, within_99_percent = True \<rparr>)"
  by (simp add: spike_simps)

text \<open>
  C2, as the code has it. On an accepted input the spike flag is the conjunction of the
  percentage test and the Z-score test, where the percentage test is
  \<open>threshold_percent < deviation_percent\<close> for a non-zero mean and \<open>0 < current_value\<close>
  for a zero mean, whatever the threshold. The deviation and the Z-score are the formulas
  of the claim.
\<close>

theorem DetectSpike_is_spike_iff:
  assumes "DetectSpike_run L v (Some bd) tp zt = Inr (Result r)"
      and "read_baseline L bd = Inr (Some (m, s))"
  shows "(is_spike r \<longleftrightarrow>
            (tp < calc_deviation_percent v m \<or> (m = 0 \<and> 0 < v)) \<and> exceeds (calc_z_score v m s) zt)
         \<and> calc_deviation_percent v m =
             (if m = 0 then (if 0 < v then 100 else 0) else (v - m) / m * 100)
         \<and> calc_z_score v m s =
             (if s = 0 then (if v = m then Fin 0 else PosInf) else Fin ((v - m) / s))"
proof -
  from DetectSpike_run_Result[OF assms(1)] assms(2)
  have pos: "0 \<le> v" "0 < tp" and body: "spike_body bd v m s tp zt = Inr r"
    by auto
  have "calc_is_spike_threshold v m tp \<longleftrightarrow> (tp < calc_deviation_percent v m \<or> (m = 0 \<and> 0 < v))"
    using pos by (auto simp add: calc_is_spike_threshold_def calc_deviation_percent_def)
  then show ?thesis
    using spike_body_fields(1)[OF body]
    by (simp add: calc_deviation_percent_def calc_z_score_def)
qed

theorem DetectSpike_is_spike_iff_witness:
  "DetectSpike_run example_lib 1100 (Some sample_baseline) 20 2 =
     Inr (Result \<lparr> is_spike = False, deviation_amount = 100, deviation_percent = 10,
                    z_score = Fin 2, spike_severity = NONE, confidence = 375 / 10,
                    percent_exceeded = False, z_score_exceeded = False,
                    within_95_percent = True, within_99_percent = True \<rparr>)
   \<and> read_baseline example_lib sample_baseline = Inr (Some (1000, 50))
   \<and> calc_deviation_percent 1100 1000 = 10
   \<and> calc_z_score 1100 1000 50 = Fin 2
   \<and> \<not> (20 < calc_deviation_percent 1100 1000 \<and> exceeds (calc_z_score 1100 1000 50) 2)"
  using DetectSpike_is_spike_iff[OF DetectSpike_1100 read_sample_baseline]
    DetectSpike_1100 read_sample_baseline
  by simp

text \<open>
  C2 as the claim states it fails on a zero mean: with mean 0, current value 5 and a
  threshold of 150 percent the deviation is 100, below the threshold, and the spike is
  reported all the same.
\<close>

theorem DetectSpike_zero_mean_counterexample:
  "map_option is_spike (result_of (DetectSpike_run example_lib 5
      (Some (JObj [(''baseline_mean'', JNum 0), (''std_deviation'', JNum 1)])) 150 2)) = Some True
   \<and> \<not> (150 < calc_deviation_percent 5 0 \<and> exceeds (calc_z_score 5 0 1) 2)"
  by (simp add: spike_simps)

text \<open>
  C5: a baseline that parses to a JSON number makes the key test raise \<^verbatim>\<open>TypeError\<close>,
  which the first \<^verbatim>\<open>try\<close> does not catch: the exception leaves \<^verbatim>\<open>run\<close>.
\<close>

theorem DetectSpike_raises_TypeError:
  "DetectSpike_run L 1 (Some (JNum 5)) 20 2 = Inl TypeError"
  by (simp add: DetectSpike_run_def read_baseline_def)

text \<open>
  The returned confidence is the average of the two capped terms, rounded to one decimal.
  The Z-score term carries an absolute value, the deviation term does not: the score never
  exceeds 100 and is non-negative where the deviation is.
\<close>

lemma confidence_of_accepted:
  assumes "DetectSpike_run L v (Some bd) tp zt = Inr (Result r)"
      and "read_baseline L bd = Inr (Some (m, s))"
  shows "confidence r =
           py_round (((case calc_z_score v m s of
                         Fin z \<Rightarrow> min 100 (\<bar>z\<bar> / zt * 50) | PosInf \<Rightarrow> 100)
                      + min 100 (calc_deviation_percent v m / tp * 50)) / 2) 1
         \<and> confidence r \<le> 100
         \<and> (0 \<le> calc_deviation_percent v m \<longrightarrow> 0 \<le> confidence r)"
proof -
  from DetectSpike_run_Result[OF assms(1)] assms(2)
  have tp: "0 < tp" and zt: "0 < zt" and body: "spike_body bd v m s tp zt = Inr r"
    by auto
  define zc where "zc = calc_z_score_confidence (calc_z_score v m s) zt"
  define tc where "tc = min 100 (calc_deviation_percent v m / tp * 50)"
  have zc_eq: "zc = (case calc_z_score v m s of
                       Fin z \<Rightarrow> min 100 (\<bar>z\<bar> / zt * 50) | PosInf \<Rightarrow> 100)"
    unfolding zc_def by (cases "calc_z_score v m s") simp_all
  have c: "confidence r = py_round ((zc + tc) / 2) 1"
    using spike_body_fields(2)[OF body] by (simp add: zc_def tc_def calc_threshold_confidence_def)
  have zc: "0 \<le> zc" "zc \<le> 100"
    using zt unfolding zc_def by (cases "calc_z_score v m s"; simp)+
  have tc: "tc \<le> 100" by (simp add: tc_def)
  have up: "confidence r \<le> 100"
  proof -
    have "(zc + tc) / 2 \<le> 100" using zc tc by simp
    then show ?thesis unfolding c by (rule py_round_le_100)
  qed
  have lo: "0 \<le> confidence r" if "0 \<le> calc_deviation_percent v m"
  proof -
    have "0 \<le> calc_deviation_percent v m / tp * 50" using that tp by simp
    then have "0 \<le> tc" by (simp add: tc_def)
    then have "0 \<le> (zc + tc) / 2" using zc by simp
    then show ?thesis unfolding c by (rule py_round_nonneg)
  qed
  show ?thesis using c up lo unfolding zc_eq[symmetric] tc_def by simp
qed

text \<open>
  C6: the comment over step 8 promises a score from 0 to 100, yet below the mean the
  deviation term is negative and uncapped from below. A current value of 0 against a mean
  of 1000 and a deviation of 50 has deviation -100 percent and Z-score -20; the terms are
  100 and -250 and the returned confidence is -75.
\<close>

theorem DetectSpike_confidence_negative:
  "map_option confidence (result_of (DetectSpike_run example_lib 0
      (Some (JObj [(''baseline_mean'', JNum 1000), (''std_deviation'', JNum 50)])) 20 2))
     = Some (- 75)
   \<and> calc_deviation_percent 0 1000 = - 100
   \<and> calc_z_score 0 1000 50 = Fin (- 20)
   \<and> calc_z_score_confidence (Fin (- 20)) 2 = 100
   \<and> calc_threshold_confidence (- 100) 20 = - 250"
  by (simp add: spike_simps)

text \<open>
  C7: for a fixed baseline and fixed thresholds, if a value is reported as a spike then so
  is every larger value that the tool accepts.
\<close>

theorem DetectSpike_monotone:
  assumes r1: "DetectSpike_run L v1 (Some bd) tp zt = Inr (Result r1)"
      and r2: "DetectSpike_run L v2 (Some bd) tp zt = Inr (Result r2)"
      and le: "v1 \<le> v2"
      and sp: "is_spike r1"
  shows "is_spike r2"
proof -
  from DetectSpike_run_Result[OF r1] obtain m s where
    rb: "read_baseline L bd = Inr (Some (m, s))" and v1: "0 \<le> v1" and tp: "0 < tp" and zt: "0 < zt"
    and b1: "spike_body bd v1 m s tp zt = Inr r1" by blast
  from DetectSpike_run_Result[OF r2] rb have b2: "spike_body bd v2 m s tp zt = Inr r2" by auto
  from spike_body_fields(1)[OF b1] sp
  have t1: "calc_is_spike_threshold v1 m tp" and z1: "exceeds (calc_z_score v1 m s) zt" by auto
  have t2: "calc_is_spike_threshold v2 m tp" and gt: "m < v1"
  proof -
    show "calc_is_spike_threshold v2 m tp"
    proof (cases "m = 0")
      case True
      then show ?thesis using t1 le by (auto simp add: calc_is_spike_threshold_def split: if_splits)
    next
      case False
      from t1 False have d1: "tp < (v1 - m) / m * 100"
        by (simp add: calc_is_spike_threshold_def calc_deviation_percent_def)
      from deviation_above_threshold[OF d1 tp v1] have mpos: "0 < m" by simp
      have "(v1 - m) / m \<le> (v2 - m) / m" using le mpos by (simp add: divide_right_mono)
      then have "(v1 - m) / m * 100 \<le> (v2 - m) / m * 100" by (rule mult_right_mono) simp
      then have "tp < (v2 - m) / m * 100" using d1 by (rule less_le_trans[rotated])
      then show ?thesis using False
        by (simp add: calc_is_spike_threshold_def calc_deviation_percent_def)
    qed
    show "m < v1"
    proof (cases "m = 0")
      case True
      then show ?thesis using t1 by (auto simp add: calc_is_spike_threshold_def split: if_splits)
    next
      case False
      from t1 False have d1: "tp < (v1 - m) / m * 100"
        by (simp add: calc_is_spike_threshold_def calc_deviation_percent_def)
      from deviation_above_threshold[OF d1 tp v1] show ?thesis by simp
    qed
  qed
  have z2: "exceeds (calc_z_score v2 m s) zt"
  proof (cases "s = 0")
    case True
    then show ?thesis using gt le by (simp add: calc_z_score_def)
  next
    case False
    from z1 False have a: "zt < (v1 - m) / s" by (simp add: calc_z_score_def)
    from z_above_threshold[OF a zt gt] have spos: "0 < s" .
    have "(v1 - m) / s \<le> (v2 - m) / s" using le spos by (simp add: divide_right_mono)
    then have "zt < (v2 - m) / s" using a by linarith
    then show ?thesis using False by (simp add: calc_z_score_def)
  qed
  show ?thesis using spike_body_fields(1)[OF b2] t2 z2 by simp
qed

theorem DetectSpike_monotone_witness:
  "DetectSpike_run example_lib 1250 (Some sample_baseline) 20 2 =
     Inr (Result \<lparr> is_spike = True, deviation_amount = 250, deviation_percent = 25,
                    z_score = Fin 5, spike_severity = LOW, confidence = 812 / 10,
                    percent_exceeded = True, z_score_exceeded = True,
                    within_95_percent = False, within_99_percent = False \<rparr>)
   \<and> DetectSpike_run example_lib 1400 (Some sample_baseline) 20 2 =
     Inr (Result \<lparr> is_spike = True, deviation_amount = 400, deviation_percent = 40,
                    z_score = Fin 8, spike_severity = MEDIUM, confidence = 100,
                    percent_exceeded = True, z_score_exceeded = True,
                    within_95_percent = False, within_99_percent = False \<rparr>)
   \<and> (1250::real) \<le> 1400"
  using DetectSpike_monotone[OF DetectSpike_1250 DetectSpike_1400] DetectSpike_1250 DetectSpike_1400
  by simp

section \<open>CalculateBaseline: the window and the confidence intervals\<close>

lemma collect_descending:
  "collect_entries example_lib descending_history =
     Inr [\<lparr>date = 739265, cost = 100\<rparr>, \<lparr>date = 739264, cost = 100\<rparr>, \<lparr>date = 739263, cost = 100\<rparr>,
          \<lparr>date = 739262, cost = 100\<rparr>, \<lparr>date = 739261, cost = 100\<rparr>, \<lparr>date = 739260, cost = 100\<rparr>,
          \<lparr>date = 739259, cost = 100\<rparr>, \<lparr>date = 739258, cost = 0\<rparr>, \<lparr>date = 739257, cost = 0\<rparr>,
          \<lparr>date = 739256, cost = 0\<rparr>, \<lparr>date = 739255, cost = 0\<rparr>, \<lparr>date = 739254, cost = 0\<rparr>,
          \<lparr>date = 739253, cost = 0\<rparr>, \<lparr>date = 739252, cost = 0\<rparr>]"
  by (simp add: descending_history_def lib_simps entry_simps)

lemma collect_varied:
  "collect_entries example_lib varied_history =
     Inr [\<lparr>date = 739252, cost = 15\<rparr>, \<lparr>date = 739253, cost = 5\<rparr>, \<lparr>date = 739254, cost = 11\<rparr>,
          \<lparr>date = 739255, cost = 9\<rparr>, \<lparr>date = 739256, cost = 10\<rparr>, \<lparr>date = 739257, cost = 10\<rparr>,
          \<lparr>date = 739258, cost = 10\<rparr>, \<lparr>date = 739259, cost = 10\<rparr>, \<lparr>date = 739260, cost = 10\<rparr>,
          \<lparr>date = 739261, cost = 10\<rparr>, \<lparr>date = 739262, cost = 10\<rparr>, \<lparr>date = 739263, cost = 10\<rparr>,
          \<lparr>date = 739264, cost = 10\<rparr>, \<lparr>date = 739265, cost = 10\<rparr>]"
  by (simp add: varied_history_def lib_simps entry_simps)

lemma CalculateBaseline_varied:
  "CalculateBaseline_run example_lib (Some (JArr varied_history)) 30 True =
     Inr (Result \<lparr> baseline_mean = 10, std_deviation = 2, coefficient_of_variation = 20,
                    ci95_lower = 6, ci95_upper = 14, ci99_lower = 4, ci99_upper = 16,
                    seasonal_factors = [1, 1, 1.25, 0.75, 1.05, 0.95, 1],
                    sample_size = 14, window_days = 14, date_range = (739252, 739265),
                    seasonal_adjustment_enabled = True \<rparr>)"
  by (simp add: CalculateBaseline_run_def baseline_body_def collect_varied
        varied_history_def[THEN arg_cong, of length] last_n_def slice_from_def stat_simps
        first_and_last_def round_simps seasonal_factor_def weekday_def)

lemma intervals_nested:
  assumes "0 \<le> sd"
  shows "py_round (max 0 (m - 3 * sd)) 2 \<le> py_round (max 0 (m - 2 * sd)) 2"
    and "py_round (m + 2 * sd) 2 \<le> py_round (m + 3 * sd) 2"
  using assms by (auto intro!: py_round_mono)

lemma baseline_body_intervals:
  assumes "baseline_body L history w enable = Inr (Result r)"
  shows "ci99_lower r \<le> ci95_lower r \<and> ci95_upper r \<le> ci99_upper r"
  using assms unfolding baseline_body_def
  by (auto simp add: Let_def and_then_Inr intervals_nested split: if_splits
        dest!: statistics_stdev_nonneg)

text \<open>
  C1: the window is cut from the entries in the order they were supplied; nothing sorts
  them. On fourteen entries supplied newest first, with cost 100 on the seven newest dates
  (8 to 14 January) and cost 0 on the seven oldest, a window of 7 reports the mean of the
  seven oldest dates, 0, over the range 7 January back to 1 January. Sorted by date first,
  the same window has mean 100.
\<close>

theorem CalculateBaseline_window_in_supplied_order:
  "map_option baseline_mean
     (result_of (CalculateBaseline_run example_lib (Some (JArr descending_history)) 7 True)) = Some 0
   \<and> map_option date_range
     (result_of (CalculateBaseline_run example_lib (Some (JArr descending_history)) 7 True))
       = Some (739258, 739252)
   \<and> and_then (collect_entries example_lib descending_history)
       (\<lambda>points. statistics_mean (map cost (last_n 7 (sort_by_date points)))) = Inr 100"
  by (simp add: CalculateBaseline_run_def baseline_body_def collect_descending
        descending_history_def[THEN arg_cong, of length] last_n_def slice_from_def stat_simps
        first_and_last_def round_simps sort_by_date_def)

text \<open>
  C10: on every accepted input the reported 95 percent interval lies inside the 99 percent
  interval.
\<close>

theorem CalculateBaseline_intervals_nested:
  assumes "CalculateBaseline_run L cost_history window_days_arg enable = Inr (Result r)"
  shows "ci99_lower r \<le> ci95_lower r \<and> ci95_upper r \<le> ci99_upper r"
proof -
  from assms obtain history w where "baseline_body L history w enable = Inr (Result r)"
    by (auto simp add: CalculateBaseline_run_def Let_def
          split: option.splits json.splits if_splits sum.splits)
  then show ?thesis by (rule baseline_body_intervals)
qed

theorem CalculateBaseline_intervals_nested_witness:
  "CalculateBaseline_run example_lib (Some (JArr varied_history)) 30 True =
     Inr (Result \<lparr> baseline_mean = 10, std_deviation = 2, coefficient_of_variation = 20,
                    ci95_lower = 6, ci95_upper = 14, ci99_lower = 4, ci99_upper = 16,
                    seasonal_factors = [1, 1, 1.25, 0.75, 1.05, 0.95, 1],
                    sample_size = 14, window_days = 14, date_range = (739252, 739265),
                    seasonal_adjustment_enabled = True \<rparr>)
   \<and> (4::real) \<le> 6 \<and> (14::real) \<le> 16"
  using CalculateBaseline_intervals_nested[OF CalculateBaseline_varied] CalculateBaseline_varied
  by simp

section \<open>CreateForecast: the interval width and the zero mean\<close>

lemma collect_constant:
  "collect_entries example_lib (constant_history c) = Inr (january_points c)"
  by (simp add: constant_history_def january_points_def lib_simps entry_simps)

lemma length_constant: "length (constant_history c) = 30"
  by (simp add: constant_history_def january_2025_def)

lemma length_january_points: "length (january_points c) = 30"
  by (simp add: january_points_def january_2025_def)

lemma sort_key_sorted: "sorted (map f xs) \<Longrightarrow> sort_key f xs = xs"
  by (induction xs) (auto simp add: insort_is_Cons)

lemma sorted_constant: "sort_by_date (january_points c) = january_points c"
  unfolding sort_by_date_def
  by (rule sort_key_sorted) (simp add: january_points_def january_2025_def)

lemma costs_constant: "map cost (january_points c) = replicate 30 c"
  by (simp add: january_points_def january_2025_def numeral_eq_Suc)

lemma ends_constant:
  "first_and_last (january_points c) =
     Inr (\<lparr> date = 739252, cost = c \<rparr>, \<lparr> date = 739281, cost = c \<rparr>)"
  by (simp add: first_and_last_def january_points_def january_2025_def)

lemma statistics_mean_replicate: "0 < n \<Longrightarrow> statistics_mean (replicate n c) = Inr c"
  by (simp add: statistics_mean_def sum_list_replicate)

lemma statistics_stdev_replicate: "2 \<le> n \<Longrightarrow> statistics_stdev (replicate n c) = Inr 0"
  by (simp add: statistics_stdev_def sum_list_replicate)

lemma x_values_30:
  "x_values 30 = [0, 1, 2, 3, 4, 5, 6, 7, 8, 9, 10, 11, 12, 13, 14, 15, 16, 17, 18, 19,
                  20, 21, 22, 23, 24, 25, 26, 27, 28, 29]"
proof -
  have "[0..<30] = [0, 1, 2, 3, 4, 5, 6, 7, 8, 9, 10, 11, 12, 13, 14, 15, 16, 17, 18, 19,
                  20, 21, 22, 23, 24, 25, 26, 27, 28, 29::nat]"
    by code_simp
  then show ?thesis by (simp add: x_values_def)
qed

lemma mean_x_30: "statistics_mean (x_values 30) = Inr (29 / 2)"
  by (simp add: x_values_30 statistics_mean_def)

lemma denominator_30: "reg_denominator (x_values 30) (29 / 2) = 4495 / 2"
  by (simp add: x_values_30 reg_denominator_def power2_eq_square)

lemma reg_numerator_constant: "reg_numerator xs (replicate n c) mx c = 0"
  unfolding reg_numerator_def
proof (induction xs arbitrary: n)
  case Nil
  then show ?case by simp
next
  case (Cons x xs)
  then show ?case by (cases n) simp_all
qed

lemma reg_ss_total_constant: "reg_ss_total (replicate n c) c = 0"
  by (simp add: reg_ss_total_def sum_list_replicate)

lemma forecast_fit_constant: "forecast_fit (replicate 30 c) = Inr (Some (0, c, 0))"
  by (simp add: forecast_fit_def Let_def mean_x_30 statistics_mean_replicate denominator_30
        reg_numerator_constant reg_ss_total_constant)


lemma forecast_for_day_constant:
  assumes "1 \<le> day" "day \<le> 90"
  shows "forecast_for_day 0 c z 0 n 739281 day =
           Inr \<lparr> forecast_date = 739281 + day, day_offset = day, forecast_cost = py_round c 2,
                 ci_lower = py_round (max 0 c) 2, ci_upper = py_round c 2 \<rparr>"
  using assms by (simp add: forecast_for_day_def add_days_def max_ordinal_def interval_width_def)

lemma map_exn_map:
  assumes "\<And>x. x \<in> set xs \<Longrightarrow> f x = Inr (g x)"
  shows "map_exn f xs = Inr (map g xs)"
  using assms by (induction xs) simp_all

lemma map_exn_forecast_constant:
  assumes "fd \<le> 90"
  shows "map_exn (forecast_for_day 0 c z 0 n 739281) [1..fd] =
           Inr (map (\<lambda>day. \<lparr> forecast_date = 739281 + day, day_offset = day,
                               forecast_cost = py_round c 2, ci_lower = py_round (max 0 c) 2,
                               ci_upper = py_round c 2 \<rparr>) [1..fd])"
  using assms by (intro map_exn_map forecast_for_day_constant) auto

lemma forecast_body_constant:
  assumes "fd \<le> 90"
  shows "forecast_body example_lib (constant_history c) fd (80 / 100) =
     and_then (forecast_report_of
        (map (\<lambda>day. \<lparr> forecast_date = 739281 + day, day_offset = day,
                               forecast_cost = py_round c 2, ci_lower = py_round (max 0 c) 2,
                               ci_upper = py_round c 2 \<rparr>) [1..fd]) c 0 0 0 30)
       (\<lambda>r. Inr (Result r))"
  using assms
  by (simp add: forecast_body_def collect_constant sorted_constant costs_constant Let_def
        length_january_points statistics_mean_replicate statistics_stdev_replicate
        forecast_fit_constant ends_constant z_lookup_def z_scores_def map_exn_forecast_constant)

lemma forecast_report_zero_mean:
  "all_forecasts \<noteq> [] \<Longrightarrow> forecast_report_of all_forecasts 0 0 m r2 n = Inl ZeroDivisionError"
  by (simp add: forecast_report_of_def Let_def py_div_def find_risk_factors_def)

text \<open>
  C4: on thirty entries that all cost 0 the volatility test of step 10 divides the
  deviation by the mean, 0 by 0. The \<^verbatim>\<open>ZeroDivisionError\<close> is caught by the outer
  \<^verbatim>\<open>except\<close> and \<^verbatim>\<open>run\<close> returns the error text instead of a forecast.
\<close>

theorem CreateForecast_zero_costs_error:
  "CreateForecast_run example_lib (Some (JArr (constant_history 0))) 30 (80 / 100)
     = Inr (ErrorText ''Error creating forecast'')
   \<and> forecast_body example_lib (constant_history 0) 30 (80 / 100) = Inl ZeroDivisionError"
proof -
  have ne: "[1..30::int] \<noteq> []" by (simp add: upto_rec1[of 1])
  have "forecast_body example_lib (constant_history 0) 30 (80 / 100) = Inl ZeroDivisionError"
    using forecast_body_constant[of 30 0] by (simp add: forecast_report_zero_mean ne)
  then show ?thesis
    by (simp add: CreateForecast_run_def valid_confidence_levels_def length_constant)
qed

lemma z_lookup_positive: "z_lookup cl = Inr z \<Longrightarrow> 0 < z"
  by (auto simp add: z_lookup_def z_scores_def split: if_splits)

lemma forecast_report_of_forecasts:
  "forecast_report_of all_forecasts mc sd m r2 n = Inr r \<Longrightarrow> forecasts r = take 7 all_forecasts"
  by (auto simp add: forecast_report_of_def Let_def and_then_Inr)

lemma and_then_InrE:
  assumes "and_then m f = Inr y"
  obtains x where "m = Inr x" "f x = Inr y"
  using assms by (auto simp add: and_then_Inr)

lemma CreateForecast_falling_5:
  "CreateForecast_run example_lib (Some (JArr (constant_history (- 5)))) 1 (80 / 100)
     = Inr (Result
         \<lparr> total_forecasted_cost = - 5, avg_daily_forecast = - 5, forecast_direction = Decreasing,
           forecast_strength = Weak, history_days = 30, avg_daily_cost = - 5,
           history_std_deviation = 0, daily_change_rate = 0, forecast_r_squared = 0,
           percent_change_vs_historical = 0,
           forecasts =
             [\<lparr>forecast_date = 739282, day_offset = 1, forecast_cost = - 5, ci_lower = 0, ci_upper = - 5\<rparr>],
           monthly_30_day_total = - 5, monthly_30_day_range = None,
           risk_factors = [LowRSquared, LimitedHistory, RapidTrend] \<rparr>)"
  using forecast_body_constant[of 1 "- 5"]
  by (simp add: CreateForecast_run_def valid_confidence_levels_def length_constant
        forecast_report_of_def find_risk_factors_def py_div_def round_simps upto_rec1[of 1])

lemma CreateForecast_constant_5:
  "CreateForecast_run example_lib (Some (JArr (constant_history 5))) 2 (80 / 100)
     = Inr (Result
         \<lparr> total_forecasted_cost = 10, avg_daily_forecast = 5, forecast_direction = Stable,
           forecast_strength = Weak, history_days = 30, avg_daily_cost = 5,
           history_std_deviation = 0, daily_change_rate = 0, forecast_r_squared = 0,
           percent_change_vs_historical = 0,
           forecasts =
             [\<lparr>forecast_date = 739282, day_offset = 1, forecast_cost = 5, ci_lower = 5, ci_upper = 5\<rparr>,
              \<lparr>forecast_date = 739283, day_offset = 2, forecast_cost = 5, ci_lower = 5, ci_upper = 5\<rparr>],
           monthly_30_day_total = 10, monthly_30_day_range = None,
           risk_factors = [LowRSquared, LimitedHistory] \<rparr>)"
  using forecast_body_constant[of 2 5]
  by (simp add: CreateForecast_run_def valid_confidence_levels_def length_constant
        forecast_report_of_def find_risk_factors_def py_div_def round_simps upto_rec1[of 1])

lemma z_lookup_80: "z_lookup (80 / 100) = Inr (128 / 100)"
  by (simp add: z_lookup_def z_scores_def)

lemma accepted_branch:
  assumes "(if c then Inr (ErrorText t) else e) = Inr (Result r)"
  obtains "\<not> c" "e = Inr (Result r)"
  using assms by (simp split: if_splits)

lemma fit_found:
  assumes "(case fit of None \<Rightarrow> Inr (ErrorText t) | Some (m, b, r2) \<Rightarrow> f m b r2) = Inr (Result r)"
  obtains m b r2 where "fit = Some (m, b, r2)" "f m b r2 = Inr (Result r)"
  using assms by (auto split: option.splits prod.splits)

lemma forecast_body_steps:
  assumes "forecast_body L history fd cl = Inr (Result r)"
  shows "\<exists>points mc sd m b r2 ends z all_forecasts.
           collect_entries L history = Inr points
         \<and> 30 \<le> length points
         \<and> statistics_mean (map cost (sort_by_date points)) = Inr mc
         \<and> statistics_stdev (map cost (sort_by_date points)) = Inr sd
         \<and> forecast_fit (map cost (sort_by_date points)) = Inr (Some (m, b, r2))
         \<and> first_and_last (sort_by_date points) = Inr ends
         \<and> z_lookup cl = Inr z
         \<and> map_exn (forecast_for_day m b z sd (length points) (date (snd ends))) [1..fd]
               = Inr all_forecasts
         \<and> forecast_report_of all_forecasts mc sd m r2 (length points) = Inr r"
  using assms unfolding forecast_body_def Let_def
  apply -
  apply (erule and_then_InrE)
  apply (erule accepted_branch)
  apply (erule and_then_InrE)
  apply (erule and_then_InrE)
  apply (erule and_then_InrE)
  apply (erule fit_found)
  apply (erule and_then_InrE)
  apply (erule and_then_InrE)
  apply (erule and_then_InrE)
  apply (erule and_then_InrE)
  apply (auto simp add: sort_by_date_def split: if_splits)
  done

lemma spread_costs_list:
  "spread_costs = [15, 5, 12, 8, 10, 10, 10, 10, 10, 10, 10, 10, 10, 10, 10, 10, 10, 10, 10, 10,
                   10, 10, 10, 10, 10, 10, 8, 12, 5, 15]"
  by (simp add: spread_costs_def numeral_eq_Suc)

lemma collect_spread: "collect_entries example_lib spread_history = Inr spread_points"
  by (simp add: spread_history_def spread_points_def spread_costs_list lib_simps entry_simps)

lemma length_spread_history: "length spread_history = 30"
  by (simp add: spread_history_def spread_costs_list january_2025_def)

lemma length_spread_points: "length spread_points = 30"
  by (simp add: spread_points_def spread_costs_list january_2025_def)

lemma sorted_spread: "sort_by_date spread_points = spread_points"
  unfolding sort_by_date_def
  by (rule sort_key_sorted) (simp add: spread_points_def spread_costs_list january_2025_def)

lemma costs_spread: "map cost spread_points = spread_costs"
  by (simp add: spread_points_def spread_costs_list january_2025_def)

lemma ends_spread:
  "first_and_last spread_points =
     Inr (\<lparr> date = 739252, cost = 15 \<rparr>, \<lparr> date = 739281, cost = 15 \<rparr>)"
  by (simp add: first_and_last_def spread_points_def spread_costs_list january_2025_def)

lemma mean_spread: "statistics_mean spread_costs = Inr 10"
  by (simp add: statistics_mean_def spread_costs_list)

lemma stdev_spread: "statistics_stdev spread_costs = Inr 2"
  by (simp add: statistics_stdev_def spread_costs_list Let_def power2_eq_square)

lemma forecast_fit_spread: "forecast_fit spread_costs = Inr (Some (0, 10, 0))"
proof -
  have len: "length spread_costs = 30" by (simp add: spread_costs_list)
  have num: "reg_numerator (x_values 30) spread_costs (29 / 2) 10 = 0"
    by (simp add: reg_numerator_def x_values_30 spread_costs_list)
  have tot: "reg_ss_total spread_costs 10 = 116"
    by (simp add: reg_ss_total_def spread_costs_list power2_eq_square)
  have res: "reg_ss_residual spread_costs (map (\<lambda>x. 10) (x_values 30)) = 116"
    by (simp add: reg_ss_residual_def x_values_30 spread_costs_list power2_eq_square)
  show ?thesis
    by (simp add: forecast_fit_def Let_def len mean_x_30 mean_spread denominator_30 num tot res)
qed

lemma CreateForecast_spread:
  "CreateForecast_run example_lib (Some (JArr spread_history)) 2 (80 / 100)
     = Inr (Result
         \<lparr> total_forecasted_cost = 20, avg_daily_forecast = 10, forecast_direction = Stable,
           forecast_strength = Weak, history_days = 30, avg_daily_cost = 10,
           history_std_deviation = 2, daily_change_rate = 0, forecast_r_squared = 0,
           percent_change_vs_historical = 0,
           forecasts =
             [\<lparr>forecast_date = 739282, day_offset = 1, forecast_cost = 10,
               ci_lower = 735 / 100, ci_upper = 1265 / 100\<rparr>,
              \<lparr>forecast_date = 739283, day_offset = 2, forecast_cost = 10,
               ci_lower = 727 / 100, ci_upper = 1273 / 100\<rparr>],
           monthly_30_day_total = 20, monthly_30_day_range = None,
           risk_factors = [LowRSquared, LimitedHistory] \<rparr>)"
proof -
  have body: "forecast_body example_lib spread_history 2 (80 / 100) = Inr (Result
         \<lparr> total_forecasted_cost = 20, avg_daily_forecast = 10, forecast_direction = Stable,
           forecast_strength = Weak, history_days = 30, avg_daily_cost = 10,
           history_std_deviation = 2, daily_change_rate = 0, forecast_r_squared = 0,
           percent_change_vs_historical = 0,
           forecasts =
             [\<lparr>forecast_date = 739282, day_offset = 1, forecast_cost = 10,
               ci_lower = 735 / 100, ci_upper = 1265 / 100\<rparr>,
              \<lparr>forecast_date = 739283, day_offset = 2, forecast_cost = 10,
               ci_lower = 727 / 100, ci_upper = 1273 / 100\<rparr>],
           monthly_30_day_total = 20, monthly_30_day_range = None,
           risk_factors = [LowRSquared, LimitedHistory] \<rparr>)"
    by (simp add: forecast_body_def collect_spread length_spread_points sorted_spread
          costs_spread spread_costs_list[THEN arg_cong, of length] mean_spread stdev_spread
          forecast_fit_spread ends_spread z_lookup_def z_scores_def upto_rec1[of 1]
          forecast_for_day_def add_days_def max_ordinal_def interval_width_def
          forecast_report_of_def find_risk_factors_def py_div_def round_simps)
  then show ?thesis
    by (simp add: CreateForecast_run_def valid_confidence_levels_def length_spread_history)
qed

lemma forecast_for_day_Inr:
  assumes "forecast_for_day m b z sd n ld day = Inr p"
  shows "p = \<lparr> forecast_date = ld + day, day_offset = day,
               forecast_cost = py_round (m * (real n + real_of_int day - 1) + b) 2,
               ci_lower = py_round (max 0 (m * (real n + real_of_int day - 1) + b
                                            - z * sd * (1 + real_of_int day / 30))) 2,
               ci_upper = py_round (m * (real n + real_of_int day - 1) + b
                                    + z * sd * (1 + real_of_int day / 30)) 2 \<rparr>"
  using assms
  by (auto simp add: forecast_for_day_def add_days_def interval_width_def Let_def
        split: if_splits)

lemma map_exn_Inr_map:
  assumes "map_exn f xs = Inr ys" "\<And>x y. x \<in> set xs \<Longrightarrow> f x = Inr y \<Longrightarrow> y = g x"
  shows "ys = map g xs"
  using assms
proof (induction xs arbitrary: ys)
  case Nil
  then show ?case by simp
next
  case (Cons x xs)
  from Cons.prems(1) obtain z zs where z: "f x = Inr z" and zs: "map_exn f xs = Inr zs"
    and ys: "ys = z # zs"
    by (auto simp add: and_then_Inr)
  have "z = g x" using Cons.prems(2)[OF _ z] by simp
  moreover have "zs = map g xs" using Cons.IH[OF zs] Cons.prems(2) by simp
  ultimately show ?case using ys by simp
qed

lemma z_lookup_table:
  assumes "z_lookup cl = Inr z"
  shows "(cl = 80 / 100 \<and> z = 128 / 100) \<or> (cl = 90 / 100 \<and> z = 1645 / 1000)
         \<or> (cl = 95 / 100 \<and> z = 196 / 100) \<or> (cl = 99 / 100 \<and> z = 2576 / 1000)"
  using assms by (auto simp add: z_lookup_def z_scores_def split: if_splits)

lemma width_growth:
  fixes z sd :: real and d1 d2 :: int
  assumes z: "0 < z" and sd: "0 \<le> sd" and d: "d1 < d2"
  shows "z * sd * (1 + real_of_int d1 / 30) \<le> z * sd * (1 + real_of_int d2 / 30)"
    and "z * sd * (1 + real_of_int d1 / 30) < z * sd * (1 + real_of_int d2 / 30) \<longleftrightarrow> sd \<noteq> 0"
proof -
  have dr: "real_of_int d1 < real_of_int d2" using d by simp
  define k where "k = z * sd"
  have k: "0 \<le> k" "k = 0 \<longleftrightarrow> sd = 0" using z sd by (auto simp add: k_def)
  show "z * sd * (1 + real_of_int d1 / 30) \<le> z * sd * (1 + real_of_int d2 / 30)"
    unfolding k_def[symmetric] using k(1) dr by (intro mult_left_mono) simp_all
  show "z * sd * (1 + real_of_int d1 / 30) < z * sd * (1 + real_of_int d2 / 30) \<longleftrightarrow> sd \<noteq> 0"
    unfolding k_def[symmetric]
  proof
    assume "k * (1 + real_of_int d1 / 30) < k * (1 + real_of_int d2 / 30)"
    then have "k \<noteq> 0" by auto
    then show "sd \<noteq> 0" using k(2) by simp
  next
    assume "sd \<noteq> 0"
    then have "0 < k" using k by simp
    then show "k * (1 + real_of_int d1 / 30) < k * (1 + real_of_int d2 / 30)"
      using dr by simp
  qed
qed

lemma CreateForecast_run_body:
  assumes "CreateForecast_run L historical_data fd cl = Inr (Result r)"
  obtains history where "historical_data = Some (JArr history)"
    "forecast_body L history fd cl = Inr (Result r)"
  using assms
  by (auto simp add: CreateForecast_run_def
        split: option.splits json.splits if_splits sum.splits)

text \<open>
  C3, as the code has it. On every accepted input the listed forecast points are the
  point estimate plus and minus a width of \<open>z * std_dev * (1 + day / 30)\<close>, rounded, with
  \<open>z\<close> read from the table at the confidence level and \<open>std_dev\<close> the sample deviation
  of the whole sorted series. The width never decreases with the day offset, and it
  strictly increases exactly when the deviation is not zero.
\<close>

theorem CreateForecast_interval_width:
  assumes "CreateForecast_run L historical_data forecast_days confidence_level = Inr (Result r)"
  shows "\<exists>history points z sd m b r2 last_date.
           historical_data = Some (JArr history)
         \<and> collect_entries L history = Inr points
         \<and> ((confidence_level = 80 / 100 \<and> z = 128 / 100)
              \<or> (confidence_level = 90 / 100 \<and> z = 1645 / 1000)
              \<or> (confidence_level = 95 / 100 \<and> z = 196 / 100)
              \<or> (confidence_level = 99 / 100 \<and> z = 2576 / 1000))
         \<and> statistics_stdev (map cost (sort_by_date points)) = Inr sd
         \<and> forecast_fit (map cost (sort_by_date points)) = Inr (Some (m, b, r2))
         \<and> forecasts r =
             take 7 (map (\<lambda>day.
               \<lparr> forecast_date = last_date + day, day_offset = day,
                 forecast_cost = py_round (m * (real (length points) + real_of_int day - 1) + b) 2,
                 ci_lower = py_round (max 0 (m * (real (length points) + real_of_int day - 1) + b
                                              - z * sd * (1 + real_of_int day / 30))) 2,
                 ci_upper = py_round (m * (real (length points) + real_of_int day - 1) + b
                                      + z * sd * (1 + real_of_int day / 30)) 2 \<rparr>)
               [1..forecast_days])
         \<and> (\<forall>d1 d2. d1 < d2 \<longrightarrow>
               z * sd * (1 + real_of_int d1 / 30) \<le> z * sd * (1 + real_of_int d2 / 30)
               \<and> (z * sd * (1 + real_of_int d1 / 30) < z * sd * (1 + real_of_int d2 / 30)
                    \<longleftrightarrow> sd \<noteq> 0))"
proof -
  from assms obtain history where h: "historical_data = Some (JArr history)"
    and body: "forecast_body L history forecast_days confidence_level = Inr (Result r)"
    by (rule CreateForecast_run_body)
  from forecast_body_steps[OF body] show ?thesis
  proof (elim exE conjE)
    fix points mc sd m b r2 z all_forecasts and ends :: "data_point \<times> data_point"
    assume c: "collect_entries L history = Inr points"
      and sd: "statistics_stdev (map cost (sort_by_date points)) = Inr sd"
      and fit: "forecast_fit (map cost (sort_by_date points)) = Inr (Some (m, b, r2))"
      and z: "z_lookup confidence_level = Inr z"
      and all: "map_exn (forecast_for_day m b z sd (length points) (date (snd ends)))
                  [1..forecast_days] = Inr all_forecasts"
      and rep: "forecast_report_of all_forecasts mc sd m r2 (length points) = Inr r"
    have pts: "all_forecasts = map (\<lambda>day.
                 \<lparr> forecast_date = date (snd ends) + day, day_offset = day,
                   forecast_cost = py_round (m * (real (length points) + real_of_int day - 1) + b) 2,
                   ci_lower = py_round (max 0 (m * (real (length points) + real_of_int day - 1) + b
                                                - z * sd * (1 + real_of_int day / 30))) 2,
                   ci_upper = py_round (m * (real (length points) + real_of_int day - 1) + b
                                        + z * sd * (1 + real_of_int day / 30)) 2 \<rparr>)
                 [1..forecast_days]"
      using all by (rule map_exn_Inr_map) (rule forecast_for_day_Inr)
    have fr: "forecasts r = take 7 all_forecasts"
      using rep by (rule forecast_report_of_forecasts)
    have zpos: "0 < z" using z by (rule z_lookup_positive)
    have sd0: "0 \<le> sd" using sd by (rule statistics_stdev_nonneg)
    have grow: "\<forall>d1 d2. d1 < d2 \<longrightarrow>
                 z * sd * (1 + real_of_int d1 / 30) \<le> z * sd * (1 + real_of_int d2 / 30)
                 \<and> (z * sd * (1 + real_of_int d1 / 30) < z * sd * (1 + real_of_int d2 / 30)
                      \<longleftrightarrow> sd \<noteq> 0)"
      using width_growth[OF zpos sd0] by blast
    show ?thesis
      using h c z_lookup_table[OF z] sd fit fr[unfolded pts] grow by blast
  qed
qed

theorem CreateForecast_interval_width_witness:
  "CreateForecast_run example_lib (Some (JArr spread_history)) 2 (80 / 100)
     = Inr (Result
         \<lparr> total_forecasted_cost = 20, avg_daily_forecast = 10, forecast_direction = Stable,
           forecast_strength = Weak, history_days = 30, avg_daily_cost = 10,
           history_std_deviation = 2, daily_change_rate = 0, forecast_r_squared = 0,
           percent_change_vs_historical = 0,
           forecasts =
             [\<lparr>forecast_date = 739282, day_offset = 1, forecast_cost = 10,
               ci_lower = 735 / 100, ci_upper = 1265 / 100\<rparr>,
              \<lparr>forecast_date = 739283, day_offset = 2, forecast_cost = 10,
               ci_lower = 727 / 100, ci_upper = 1273 / 100\<rparr>],
           monthly_30_day_total = 20, monthly_30_day_range = None,
           risk_factors = [LowRSquared, LimitedHistory] \<rparr>)
   \<and> collect_entries example_lib spread_history = Inr spread_points
   \<and> statistics_stdev (map cost (sort_by_date spread_points)) = Inr 2
   \<and> forecast_fit (map cost (sort_by_date spread_points)) = Inr (Some (0, 10, 0))
   \<and> (128 / 100 * 2 * (1 + 1 / 30) < (128 / 100 * 2 * (1 + 2 / 30) :: real))"
  using CreateForecast_interval_width[OF CreateForecast_spread] CreateForecast_spread
  by (simp add: collect_spread sorted_spread costs_spread stdev_spread forecast_fit_spread)

text \<open>
  C3 as the claim states it fails on a flat series: thirty entries that all cost 5 are
  accepted, their deviation is 0, and the width is 0 at day 1 and at day 2.
\<close>

theorem interval_width_constant_counterexample:
  "map_option forecasts
     (result_of (CreateForecast_run example_lib (Some (JArr (constant_history 5))) 2 (80 / 100)))
     = Some [\<lparr>forecast_date = 739282, day_offset = 1, forecast_cost = 5, ci_lower = 5, ci_upper = 5\<rparr>,
             \<lparr>forecast_date = 739283, day_offset = 2, forecast_cost = 5, ci_lower = 5, ci_upper = 5\<rparr>]
   \<and> statistics_stdev (map cost (sort_by_date (january_points 5))) = Inr 0
   \<and> z_lookup (80 / 100) = Inr (128 / 100)
   \<and> \<not> interval_width (128 / 100) 0 1 < interval_width (128 / 100) 0 2"
  using CreateForecast_constant_5 z_lookup_80
  by (simp add: sorted_constant costs_constant statistics_stdev_replicate interval_width_def)
section \<open>The series behind the trend and the forecast\<close>

lemma trend_body_steps:
  assumes "trend_body L history k t = Inr (Result r)"
  shows "\<exists>points m b r2.
           collect_entries L history = Inr points
         \<and> 7 \<le> length points
         \<and> trend_fit (map cost (lookback_window k points)) = Inr (Some (m, b, r2))
         \<and> trend_report_of m b r2 t (lookback_window k points) = Inr r"
  using assms unfolding trend_body_def Let_def
  apply -
  apply (erule and_then_InrE)
  apply (erule accepted_branch)
  apply (erule and_then_InrE)
  apply (erule fit_found)
  apply (erule and_then_InrE)
  apply simp
  done

lemma collect_duplicate:
  "collect_entries example_lib duplicate_history =
     Inr [\<lparr>date = 739252, cost = 10\<rparr>, \<lparr>date = 739254, cost = 1\<rparr>, \<lparr>date = 739253, cost = 10\<rparr>,
          \<lparr>date = 739254, cost = 2\<rparr>, \<lparr>date = 739255, cost = 10\<rparr>, \<lparr>date = 739256, cost = 10\<rparr>,
          \<lparr>date = 739257, cost = 10\<rparr>]"
  by (simp add: duplicate_history_def lib_simps entry_simps)

lemma suffix_last_n: "suffix (last_n k xs) xs"
  by (simp add: last_n_def slice_from_def suffix_drop)

lemma suffix_lookback_window: "suffix (lookback_window k points) (sort_by_date points)"
  by (simp add: lookback_window_def Let_def suffix_last_n)

lemma sorted_sort_by_date: "sorted (map date (sort_by_date points))"
  by (simp add: sort_by_date_def)

lemma length_last_n: "0 < k \<Longrightarrow> length (last_n k xs) = min (nat k) (length xs)"
  by (auto simp add: last_n_def slice_from_def)

lemma lookback_window_last_n:
  assumes "7 \<le> k" "7 \<le> length points"
  shows "lookback_window k points = last_n k (sort_by_date points)"
proof -
  have "length (last_n k (sort_by_date points)) = min (nat k) (length points)"
    using assms(1) by (simp add: length_last_n sort_by_date_def)
  then have "\<not> length (last_n k (sort_by_date points)) < 7" using assms by simp
  then show ?thesis by (simp add: lookback_window_def Let_def)
qed

lemma trend_report_of_fields:
  assumes "trend_report_of m b r2 t series = Inr r"
  shows "slope r = py_round m 2" "intercept r = py_round b 2" "r_squared r = py_round r2 3"
    "days_analyzed r = length series" "analysis_period r = (hd series, last series)"
  using assms
  by (auto simp add: trend_report_of_def Let_def and_then_Inr first_and_last_def split: if_splits)

lemma forecast_report_of_fields:
  assumes "forecast_report_of all_forecasts mc sd m r2 n = Inr r"
  shows "daily_change_rate r = py_round m 2" "forecast_r_squared r = py_round r2 3"
    "history_days r = n" "avg_daily_cost r = py_round mc 2"
    "history_std_deviation r = py_round sd 2"
  using assms
  by (auto simp add: forecast_report_of_def Let_def and_then_Inr)

lemma DetectTrendChange_run_body:
  assumes "DetectTrendChange_run L cost_history k t = Inr (Result r)"
  obtains history where "cost_history = Some (JArr history)" "7 \<le> k"
    "trend_body L history k t = Inr (Result r)"
  using assms
  by (auto simp add: DetectTrendChange_run_def
        split: option.splits json.splits if_splits sum.splits)

lemma sort_by_date_facts:
  "mset (sort_by_date points) = mset points"
  "sorted (map date (sort_by_date points))"
  "filter (\<lambda>p. date p = d) (sort_by_date points) = filter (\<lambda>p. date p = d) points"
  by (simp_all add: sort_by_date_def sort_key_stable)

text \<open>
  C8, as the code has it. The forecast works on every collected entry and the trend on the
  trailing \<^verbatim>\<open>lookback_days\<close> of them (all of them when there are fewer), after a stable
  sort by date. No entry is dropped for sharing a date: the sorted series is a
  rearrangement of the collected entries in which entries of one date keep the order in
  which they were supplied, so its dates ascend, not necessarily strictly. The reported
  fit, the number of days and the period are those of that series.
\<close>

theorem trend_and_forecast_series:
  "(DetectTrendChange_run L cost_history lookback_days min_slope_threshold = Inr (Result tr) \<longrightarrow>
      (\<exists>history points m b r2.
          cost_history = Some (JArr history)
        \<and> collect_entries L history = Inr points
        \<and> trend_fit (map cost (last_n lookback_days (sort_by_date points))) = Inr (Some (m, b, r2))
        \<and> slope tr = py_round m 2 \<and> intercept tr = py_round b 2 \<and> r_squared tr = py_round r2 3
        \<and> days_analyzed tr = min (nat lookback_days) (length points)
        \<and> analysis_period tr = (hd (last_n lookback_days (sort_by_date points)),
                                  last (sort_by_date points))
        \<and> mset (sort_by_date points) = mset points
        \<and> sorted (map date (sort_by_date points))
        \<and> (\<forall>d. filter (\<lambda>p. date p = d) (sort_by_date points) = filter (\<lambda>p. date p = d) points)))
   \<and> (CreateForecast_run L historical_data forecast_days confidence_level = Inr (Result fr) \<longrightarrow>
      (\<exists>history points m b r2.
          historical_data = Some (JArr history)
        \<and> collect_entries L history = Inr points
        \<and> forecast_fit (map cost (sort_by_date points)) = Inr (Some (m, b, r2))
        \<and> daily_change_rate fr = py_round m 2 \<and> forecast_r_squared fr = py_round r2 3
        \<and> history_days fr = length points
        \<and> mset (sort_by_date points) = mset points
        \<and> sorted (map date (sort_by_date points))
        \<and> (\<forall>d. filter (\<lambda>p. date p = d) (sort_by_date points) = filter (\<lambda>p. date p = d) points)))"
proof (intro conjI impI)
  assume run: "DetectTrendChange_run L cost_history lookback_days min_slope_threshold = Inr (Result tr)"
  from run obtain history where h: "cost_history = Some (JArr history)" and k: "7 \<le> lookback_days"
    and body: "trend_body L history lookback_days min_slope_threshold = Inr (Result tr)"
    by (rule DetectTrendChange_run_body)
  from trend_body_steps[OF body]
  show "\<exists>history points m b r2.
          cost_history = Some (JArr history)
        \<and> collect_entries L history = Inr points
        \<and> trend_fit (map cost (last_n lookback_days (sort_by_date points))) = Inr (Some (m, b, r2))
        \<and> slope tr = py_round m 2 \<and> intercept tr = py_round b 2 \<and> r_squared tr = py_round r2 3
        \<and> days_analyzed tr = min (nat lookback_days) (length points)
        \<and> analysis_period tr = (hd (last_n lookback_days (sort_by_date points)),
                                  last (sort_by_date points))
        \<and> mset (sort_by_date points) = mset points
        \<and> sorted (map date (sort_by_date points))
        \<and> (\<forall>d. filter (\<lambda>p. date p = d) (sort_by_date points) = filter (\<lambda>p. date p = d) points)"
  proof (elim exE conjE)
    fix points m b r2
    assume c: "collect_entries L history = Inr points"
      and len: "7 \<le> length points"
      and fit: "trend_fit (map cost (lookback_window lookback_days points)) = Inr (Some (m, b, r2))"
      and rep: "trend_report_of m b r2 min_slope_threshold (lookback_window lookback_days points) = Inr tr"
    have lw: "lookback_window lookback_days points = last_n lookback_days (sort_by_date points)"
      using k len by (rule lookback_window_last_n)
    have n: "length (last_n lookback_days (sort_by_date points)) = min (nat lookback_days) (length points)"
      using k by (simp add: length_last_n sort_by_date_def)
    have ne: "last_n lookback_days (sort_by_date points) \<noteq> []"
      using n k len by auto
    have "suffix (last_n lookback_days (sort_by_date points)) (sort_by_date points)"
      by (rule suffix_last_n)
    then obtain zs where "sort_by_date points = zs @ last_n lookback_days (sort_by_date points)"
      by (auto simp add: suffix_def)
    then have lst: "last (last_n lookback_days (sort_by_date points)) = last (sort_by_date points)"
      using ne by (metis last_appendR)
    show ?thesis
      using h c fit[unfolded lw] trend_report_of_fields[OF rep, unfolded lw] n lst
        sort_by_date_facts[where points=points]
      by auto
  qed
next
  assume run: "CreateForecast_run L historical_data forecast_days confidence_level = Inr (Result fr)"
  from run obtain history where h: "historical_data = Some (JArr history)"
    and body: "forecast_body L history forecast_days confidence_level = Inr (Result fr)"
    by (rule CreateForecast_run_body)
  from forecast_body_steps[OF body]
  show "\<exists>history points m b r2.
          historical_data = Some (JArr history)
        \<and> collect_entries L history = Inr points
        \<and> forecast_fit (map cost (sort_by_date points)) = Inr (Some (m, b, r2))
        \<and> daily_change_rate fr = py_round m 2 \<and> forecast_r_squared fr = py_round r2 3
        \<and> history_days fr = length points
        \<and> mset (sort_by_date points) = mset points
        \<and> sorted (map date (sort_by_date points))
        \<and> (\<forall>d. filter (\<lambda>p. date p = d) (sort_by_date points) = filter (\<lambda>p. date p = d) points)"
  proof (elim exE conjE)
    fix points mc sd m b r2 z all_forecasts and ends :: "data_point \<times> data_point"
    assume c: "collect_entries L history = Inr points"
      and fit: "forecast_fit (map cost (sort_by_date points)) = Inr (Some (m, b, r2))"
      and rep: "forecast_report_of all_forecasts mc sd m r2 (length points) = Inr fr"
    show ?thesis
      using h c fit forecast_report_of_fields(1-3)[OF rep] sort_by_date_facts[where points=points]
      by auto
  qed
qed

lemma lookback_duplicate:
  "lookback_window 14
         [\<lparr>date = 739252, cost = 10\<rparr>, \<lparr>date = 739254, cost = 1\<rparr>, \<lparr>date = 739253, cost = 10\<rparr>,
          \<lparr>date = 739254, cost = 2\<rparr>, \<lparr>date = 739255, cost = 10\<rparr>, \<lparr>date = 739256, cost = 10\<rparr>,
          \<lparr>date = 739257, cost = 10\<rparr>]
       = [\<lparr>date = 739252, cost = 10\<rparr>, \<lparr>date = 739253, cost = 10\<rparr>, \<lparr>date = 739254, cost = 1\<rparr>,
          \<lparr>date = 739254, cost = 2\<rparr>, \<lparr>date = 739255, cost = 10\<rparr>, \<lparr>date = 739256, cost = 10\<rparr>,
          \<lparr>date = 739257, cost = 10\<rparr>]"
  by (simp add: lookback_window_def sort_by_date_def last_n_def slice_from_def)

lemma trend_fit_duplicate:
  "trend_fit [10, 10, 1, 2, 10, 10, 10] = Inr (Some (9 / 28, 185 / 28, 27 / 968))"
  by (simp add: trend_fit_def Let_def x_values_def statistics_mean_def reg_numerator_def
        reg_denominator_def reg_ss_total_def reg_ss_residual_def power2_eq_square)

lemma DetectTrendChange_duplicate:
  "DetectTrendChange_run example_lib (Some (JArr duplicate_history)) 14 5 =
     Inr (Result
       \<lparr> trend_direction = Stable, slope = 32 / 100, intercept = 661 / 100,
         r_squared = 28 / 1000, is_significant = False, trend_confidence = 17,
         projection_7_day = 225 / 100, projection_30_day = 964 / 100,
         projection_90_day = 2893 / 100, days_analyzed = 7,
         analysis_period = (\<lparr>date = 739252, cost = 10\<rparr>, \<lparr>date = 739257, cost = 10\<rparr>) \<rparr>)"
  by (simp add: DetectTrendChange_run_def trend_body_def collect_duplicate lookback_duplicate
        trend_fit_duplicate duplicate_history_def[THEN arg_cong, of length] trend_report_of_def
        first_and_last_def round_simps)

theorem trend_and_forecast_series_witness:
  "DetectTrendChange_run example_lib (Some (JArr duplicate_history)) 14 5 =
     Inr (Result
       \<lparr> trend_direction = Stable, slope = 32 / 100, intercept = 661 / 100,
         r_squared = 28 / 1000, is_significant = False, trend_confidence = 17,
         projection_7_day = 225 / 100, projection_30_day = 964 / 100,
         projection_90_day = 2893 / 100, days_analyzed = 7,
         analysis_period = (\<lparr>date = 739252, cost = 10\<rparr>, \<lparr>date = 739257, cost = 10\<rparr>) \<rparr>)
   \<and> CreateForecast_run example_lib (Some (JArr spread_history)) 2 (80 / 100)
     = Inr (Result
         \<lparr> total_forecasted_cost = 20, avg_daily_forecast = 10, forecast_direction = Stable,
           forecast_strength = Weak, history_days = 30, avg_daily_cost = 10,
           history_std_deviation = 2, daily_change_rate = 0, forecast_r_squared = 0,
           percent_change_vs_historical = 0,
           forecasts =
             [\<lparr>forecast_date = 739282, day_offset = 1, forecast_cost = 10,
               ci_lower = 735 / 100, ci_upper = 1265 / 100\<rparr>,
              \<lparr>forecast_date = 739283, day_offset = 2, forecast_cost = 10,
               ci_lower = 727 / 100, ci_upper = 1273 / 100\<rparr>],
           monthly_30_day_total = 20, monthly_30_day_range = None,
           risk_factors = [LowRSquared, LimitedHistory] \<rparr>)
   \<and> collect_entries example_lib duplicate_history =
     Inr [\<lparr>date = 739252, cost = 10\<rparr>, \<lparr>date = 739254, cost = 1\<rparr>, \<lparr>date = 739253, cost = 10\<rparr>,
          \<lparr>date = 739254, cost = 2\<rparr>, \<lparr>date = 739255, cost = 10\<rparr>, \<lparr>date = 739256, cost = 10\<rparr>,
          \<lparr>date = 739257, cost = 10\<rparr>]
   \<and> collect_entries example_lib spread_history = Inr spread_points
   \<and> (7::nat) = min (nat 14) 7 \<and> length spread_points = 30"
  using trend_and_forecast_series[of example_lib "Some (JArr duplicate_history)" 14 5 _
      "Some (JArr spread_history)" 2 "80 / 100"]
    DetectTrendChange_duplicate CreateForecast_spread
  by (simp add: collect_duplicate collect_spread length_spread_points)

text \<open>
  C8 as the claim states it fails: of seven entries, two dated 3 January, both reach the
  regression, in supplied order, and seven days are analysed.
\<close>

theorem duplicate_dates_counterexample:
  "collect_entries example_lib duplicate_history =
     Inr [\<lparr>date = 739252, cost = 10\<rparr>, \<lparr>date = 739254, cost = 1\<rparr>, \<lparr>date = 739253, cost = 10\<rparr>,
          \<lparr>date = 739254, cost = 2\<rparr>, \<lparr>date = 739255, cost = 10\<rparr>, \<lparr>date = 739256, cost = 10\<rparr>,
          \<lparr>date = 739257, cost = 10\<rparr>]
   \<and> lookback_window 14
         [\<lparr>date = 739252, cost = 10\<rparr>, \<lparr>date = 739254, cost = 1\<rparr>, \<lparr>date = 739253, cost = 10\<rparr>,
          \<lparr>date = 739254, cost = 2\<rparr>, \<lparr>date = 739255, cost = 10\<rparr>, \<lparr>date = 739256, cost = 10\<rparr>,
          \<lparr>date = 739257, cost = 10\<rparr>]
       = [\<lparr>date = 739252, cost = 10\<rparr>, \<lparr>date = 739253, cost = 10\<rparr>, \<lparr>date = 739254, cost = 1\<rparr>,
          \<lparr>date = 739254, cost = 2\<rparr>, \<lparr>date = 739255, cost = 10\<rparr>, \<lparr>date = 739256, cost = 10\<rparr>,
          \<lparr>date = 739257, cost = 10\<rparr>]
   \<and> \<not> distinct (map date
         [\<lparr>date = 739252, cost = 10\<rparr>, \<lparr>date = 739253, cost = 10\<rparr>, \<lparr>date = 739254, cost = 1\<rparr>,
          \<lparr>date = 739254, cost = 2\<rparr>, \<lparr>date = 739255, cost = 10\<rparr>, \<lparr>date = 739256, cost = 10\<rparr>,
          \<lparr>date = 739257, cost = 10\<rparr>])
   \<and> map_option days_analyzed
         (result_of (DetectTrendChange_run example_lib (Some (JArr duplicate_history)) 14 5)) = Some 7"
proof -
  have lw: "lookback_window 14
         [\<lparr>date = 739252, cost = 10\<rparr>, \<lparr>date = 739254, cost = 1\<rparr>, \<lparr>date = 739253, cost = 10\<rparr>,
          \<lparr>date = 739254, cost = 2\<rparr>, \<lparr>date = 739255, cost = 10\<rparr>, \<lparr>date = 739256, cost = 10\<rparr>,
          \<lparr>date = 739257, cost = 10\<rparr>]
       = [\<lparr>date = 739252, cost = 10\<rparr>, \<lparr>date = 739253, cost = 10\<rparr>, \<lparr>date = 739254, cost = 1\<rparr>,
          \<lparr>date = 739254, cost = 2\<rparr>, \<lparr>date = 739255, cost = 10\<rparr>, \<lparr>date = 739256, cost = 10\<rparr>,
          \<lparr>date = 739257, cost = 10\<rparr>]"
    by (simp add: lookback_window_def sort_by_date_def last_n_def slice_from_def)
  have fit: "trend_fit [10, 10, 1, 2, 10, 10, 10] = Inr (Some (9 / 28, 185 / 28, 27 / 968))"
    by (simp add: trend_fit_def Let_def x_values_def statistics_mean_def reg_numerator_def
          reg_denominator_def reg_ss_total_def reg_ss_residual_def power2_eq_square)
  have "map_option days_analyzed
         (result_of (DetectTrendChange_run example_lib (Some (JArr duplicate_history)) 14 5)) = Some 7"
    by (simp add: DetectTrendChange_run_def trend_body_def collect_duplicate lw fit
          duplicate_history_def[THEN arg_cong, of length] trend_report_of_def first_and_last_def
          Let_def)
  then show ?thesis using collect_duplicate lw by simp
qed

text \<open>
  The three series tools wrap everything after the parse in \<^verbatim>\<open>except Exception\<close>: in the
  model no exception leaves them.
\<close>

lemma CalculateBaseline_run_returns: "\<exists>v. CalculateBaseline_run L cost_history w enable = Inr v"
  by (auto simp add: CalculateBaseline_run_def Let_def
        split: option.splits json.splits sum.splits)

lemma DetectTrendChange_run_returns: "\<exists>v. DetectTrendChange_run L cost_history k t = Inr v"
  by (auto simp add: DetectTrendChange_run_def split: option.splits json.splits sum.splits)

lemma CreateForecast_run_returns: "\<exists>v. CreateForecast_run L historical_data fd cl = Inr v"
  by (auto simp add: CreateForecast_run_def split: option.splits json.splits sum.splits)

section \<open>CreateForecast: the lower bound and the upper bound\<close>

text \<open>
  Step 7 clamps the lower bound at 0 (\<^verbatim>\<open>max(0, point_forecast - interval_width)\<close>) and
  leaves the upper bound as it is, so the two are in order exactly when the unrounded upper
  bound \<open>point_forecast + interval_width\<close> is not negative. For costs that are not
  negative, a history of at least 30 points and a day offset of at most 7 this holds for
  every series: the steepest fall that such costs allow comes with a deviation large enough
  for the width to cover it.

  The proof bounds the covariance sum of the fit from below. With \<open>D i = y i - ybar\<close>,
  \<open>D\<close> sums to 0 and \<open>- ybar \<le> D i\<close>, so the positions may be cut at any \<open>k\<close> and
  shifted by any \<open>kap\<close>, at the price of \<open>ybar\<close> times the part cut off; the remaining sum
  is bounded by Cauchy-Schwarz against the sum of the squared \<open>D i\<close>, which is what the
  sample deviation measures.
\<close>

subsection \<open>Sums over the positions\<close>

lemma sum_index: "(\<Sum>i<n. real i) = real n * (real n - 1) / 2"
  by (induction n) (simp_all add: field_simps)

lemma sum_index_sq: "(\<Sum>i<n. (real i)\<^sup>2) = (real n - 1) * real n * (2 * real n - 1) / 6"
  by (induction n) (simp_all add: field_simps power2_eq_square)

lemma sum_shift_sq:
  fixes f :: "nat \<Rightarrow> real"
  shows "(\<Sum>i<n. (f i - c)\<^sup>2) = (\<Sum>i<n. (f i)\<^sup>2) - 2 * c * (\<Sum>i<n. f i) + real n * c\<^sup>2"
  by (induction n) (simp_all add: field_simps power2_eq_square)

lemma sum_min_split:
  fixes f :: "nat \<Rightarrow> real"
  assumes "k \<le> n"
  shows "(\<Sum>i<n. f (min i k)) = (\<Sum>i<k. f i) + real (n - k) * f k"
proof -
  have "(\<Sum>i=0..<k. f (min i k)) + (\<Sum>i=k..<n. f (min i k)) = (\<Sum>i=0..<n. f (min i k))"
    using assms by (intro sum.atLeastLessThan_concat) simp_all
  then have "(\<Sum>i<n. f (min i k)) = (\<Sum>i=0..<k. f (min i k)) + (\<Sum>i=k..<n. f (min i k))"
    unfolding lessThan_atLeast0 by simp
  moreover have "(\<Sum>i=0..<k. f (min i k)) = (\<Sum>i<k. f i)"
    unfolding lessThan_atLeast0 by (rule sum.cong) simp_all
  moreover have "(\<Sum>i=k..<n. f (min i k)) = (\<Sum>i=k..<n. f k)"
    by (rule sum.cong) simp_all
  ultimately show ?thesis by simp
qed

lemma cauchy_schwarz_sum:
  fixes u v :: "nat \<Rightarrow> real"
  shows "(\<Sum>i<n. u i * v i)\<^sup>2 \<le> (\<Sum>i<n. (u i)\<^sup>2) * (\<Sum>i<n. (v i)\<^sup>2)"
proof -
  define A where "A = (\<Sum>i<n. (u i)\<^sup>2)"
  define B where "B = (\<Sum>i<n. u i * v i)"
  define C where "C = (\<Sum>i<n. (v i)\<^sup>2)"
  have A0: "0 \<le> A" unfolding A_def by (rule sum_nonneg) simp
  have "(\<Sum>i<n. (A * v i - B * u i)\<^sup>2)
          = (\<Sum>i<n. A\<^sup>2 * (v i)\<^sup>2 - 2 * A * B * (u i * v i) + B\<^sup>2 * (u i)\<^sup>2)"
    by (rule sum.cong) (simp_all add: power2_eq_square algebra_simps)
  also have "\<dots> = A\<^sup>2 * C - 2 * A * B * B + B\<^sup>2 * A"
    by (simp add: sum.distrib sum_subtractf sum_distrib_left A_def B_def C_def)
  finally have expand: "(\<Sum>i<n. (A * v i - B * u i)\<^sup>2) = A * (A * C - B\<^sup>2)"
    by (simp add: power2_eq_square algebra_simps)
  have nonneg: "0 \<le> A * (A * C - B\<^sup>2)"
    unfolding expand[symmetric] by (rule sum_nonneg) simp
  show ?thesis
  proof (cases "A = 0")
    case True
    then have "\<And>i. i < n \<Longrightarrow> u i = 0"
      unfolding A_def by (simp add: sum_nonneg_eq_0_iff)
    then have "B = 0" unfolding B_def by simp
    then show ?thesis using True unfolding A_def B_def by simp
  next
    case False
    then have "0 < A" using A0 by simp
    then have "0 \<le> A * C - B\<^sup>2" using nonneg by (simp add: zero_le_mult_iff)
    then show ?thesis unfolding A_def B_def C_def by simp
  qed
qed

lemma truncate_tail:
  fixes y :: "nat \<Rightarrow> real"
  assumes nn: "\<And>i. i < n \<Longrightarrow> 0 \<le> y i"
      and mean: "ybar * real n = (\<Sum>i<n. y i)"
  shows "(\<Sum>i<n. (real (min i k) - kap) * (y i - ybar)) - ybar * (\<Sum>i<n. real i - real (min i k))
           \<le> (\<Sum>i<n. (real i - xbar) * (y i - ybar))"
proof -
  have zero: "(\<Sum>i<n. y i - ybar) = 0"
    using mean by (simp add: sum_subtractf mult.commute)
  have "(\<Sum>i<n. (real i - xbar) * (y i - ybar))
          = (\<Sum>i<n. (real i - kap) * (y i - ybar) + (kap - xbar) * (y i - ybar))"
    by (rule sum.cong) (simp_all add: algebra_simps)
  also have "\<dots> = (\<Sum>i<n. (real i - kap) * (y i - ybar)) + (kap - xbar) * (\<Sum>i<n. y i - ybar)"
    by (simp add: sum.distrib sum_distrib_left)
  finally have shift: "(\<Sum>i<n. (real i - xbar) * (y i - ybar)) = (\<Sum>i<n. (real i - kap) * (y i - ybar))"
    using zero by simp
  have "(\<Sum>i<n. (real (min i k) - kap) * (y i - ybar) - ybar * (real i - real (min i k)))
          \<le> (\<Sum>i<n. (real i - kap) * (y i - ybar))"
  proof (rule sum_mono)
    fix i assume "i \<in> {..<n}"
    then have yi: "0 \<le> y i" using nn by simp
    have g: "0 \<le> real i - real (min i k)" by simp
    have "(real i - real (min i k)) * (- ybar) \<le> (real i - real (min i k)) * (y i - ybar)"
      using g yi by (intro mult_left_mono) simp_all
    then show "(real (min i k) - kap) * (y i - ybar) - ybar * (real i - real (min i k))
                 \<le> (real i - kap) * (y i - ybar)"
      by (simp add: algebra_simps)
  qed
  moreover have "(\<Sum>i<n. (real (min i k) - kap) * (y i - ybar) - ybar * (real i - real (min i k)))
          = (\<Sum>i<n. (real (min i k) - kap) * (y i - ybar)) - (\<Sum>i<n. ybar * (real i - real (min i k)))"
    by (rule sum_subtractf)
  moreover have "(\<Sum>i<n. ybar * (real i - real (min i k))) = ybar * (\<Sum>i<n. real i - real (min i k))"
    by (rule sum_distrib_left[symmetric])
  ultimately show ?thesis
    unfolding shift by simp
qed

lemma upper_bound_nonneg:
  fixes y :: "nat \<Rightarrow> real"
  assumes n: "2 \<le> n"
      and nn: "\<And>i. i < n \<Longrightarrow> 0 \<le> y i"
      and mean: "ybar * real n = (\<Sum>i<n. y i)"
      and t: "0 \<le> t" and S: "0 < S" and c: "0 \<le> c"
      and I: "t * (\<Sum>i<n. real i - real (min i k)) \<le> S"
      and II: "t\<^sup>2 * (\<Sum>i<n. (real (min i k) - kap)\<^sup>2) * (real n - 1) \<le> c\<^sup>2 * S\<^sup>2"
  shows "0 \<le> ybar + t / S * (\<Sum>i<n. (real i - xbar) * (y i - ybar))
               + c * sqrt ((\<Sum>i<n. (y i - ybar)\<^sup>2) / (real n - 1))"
proof -
  define N where "N = (\<Sum>i<n. (real i - xbar) * (y i - ybar))"
  define Q where "Q = (\<Sum>i<n. (y i - ybar)\<^sup>2)"
  define H where "H = (\<Sum>i<n. (real (min i k) - kap)\<^sup>2)"
  define T where "T = (\<Sum>i<n. real i - real (min i k))"
  define G where "G = (\<Sum>i<n. (real (min i k) - kap) * (y i - ybar))"
  define r where "r = t / S"
  have n1: "0 < real n - 1" using n by simp
  have "0 \<le> ybar * real n" unfolding mean by (rule sum_nonneg) (simp add: nn)
  then have ybar0: "0 \<le> ybar" using n by (simp add: zero_le_mult_iff)
  have T0: "0 \<le> T" unfolding T_def by (rule sum_nonneg) simp
  have Q0: "0 \<le> Q" unfolding Q_def by (rule sum_nonneg) simp
  have H0: "0 \<le> H" unfolding H_def by (rule sum_nonneg) simp
  have r0: "0 \<le> r" unfolding r_def using t S by simp
  have trunc: "G - ybar * T \<le> N"
    unfolding G_def T_def N_def using truncate_tail[of n y ybar k kap xbar] nn mean by simp
  have "G\<^sup>2 \<le> H * Q"
    unfolding G_def H_def Q_def
    by (rule cauchy_schwarz_sum[of "\<lambda>i. real (min i k) - kap" "\<lambda>i. y i - ybar" n])
  then have "(- G)\<^sup>2 \<le> H * Q" by simp
  then have G_low: "- G \<le> sqrt (H * Q)" by (rule real_le_rsqrt)
  have "t * T \<le> S" using I unfolding T_def .
  then have rT: "r * T \<le> 1" unfolding r_def using S by (simp add: field_simps)
  have "r * (G - ybar * T) \<le> r * N" using trunc r0 by (rule mult_left_mono)
  then have step1: "r * G - ybar * (r * T) \<le> r * N" by (simp add: algebra_simps)
  have "r * (- G) \<le> r * sqrt (H * Q)" using G_low r0 by (rule mult_left_mono)
  then have step2: "- (r * sqrt (H * Q)) \<le> r * G" by simp
  have "ybar * (r * T) \<le> ybar * 1" using rT ybar0 by (rule mult_left_mono)
  then have step3: "ybar * (r * T) \<le> ybar" by simp
  have "t\<^sup>2 * H * (real n - 1) \<le> c\<^sup>2 * S\<^sup>2" using II unfolding H_def .
  then have "r\<^sup>2 * H \<le> c\<^sup>2 / (real n - 1)"
    unfolding r_def using S n1 by (simp add: field_simps)
  then have "r\<^sup>2 * H * Q \<le> c\<^sup>2 / (real n - 1) * Q" using Q0 by (rule mult_right_mono)
  then have "r\<^sup>2 * (H * Q) \<le> c\<^sup>2 * (Q / (real n - 1))"
    by (simp add: algebra_simps)
  then have "sqrt (r\<^sup>2 * (H * Q)) \<le> sqrt (c\<^sup>2 * (Q / (real n - 1)))"
    by (simp only: real_sqrt_le_iff)
  moreover have "sqrt (r\<^sup>2 * (H * Q)) = r * sqrt (H * Q)"
    using r0 by (simp only: real_sqrt_mult real_sqrt_abs abs_of_nonneg)
  moreover have "sqrt (c\<^sup>2 * (Q / (real n - 1))) = c * sqrt (Q / (real n - 1))"
    using c by (simp only: real_sqrt_mult real_sqrt_abs abs_of_nonneg)
  ultimately have step4: "r * sqrt (H * Q) \<le> c * sqrt (Q / (real n - 1))"
    by simp
  have "0 \<le> ybar + r * N + c * sqrt (Q / (real n - 1))"
    using step1 step2 step3 step4 by linarith
  then show ?thesis unfolding r_def N_def Q_def .
qed

text \<open>
  The sums of the certificate in closed form: the centred squares of the positions, the
  part of the positions beyond \<open>k\<close>, and the squares of the positions cut at \<open>k\<close>.
\<close>

lemma S_closed:
  "(\<Sum>i<n. (real i - (real n - 1) / 2)\<^sup>2) = real n * ((real n)\<^sup>2 - 1) / 12"
  unfolding sum_shift_sq sum_index sum_index_sq
  by (simp add: field_simps power2_eq_square)

lemma T_closed:
  assumes "k \<le> n"
  shows "(\<Sum>i<n. real i - real (min i k))
           = (real n - real k) * (real n - real k - 1) / 2"
proof -
  have "(\<Sum>i<n. real i - real (min i k)) = (\<Sum>i<n. real i) - (\<Sum>i<n. real (min i k))"
    by (rule sum_subtractf)
  also have "\<dots> = real n * (real n - 1) / 2 - (real k * (real k - 1) / 2 + real (n - k) * real k)"
    unfolding sum_index sum_min_split[OF assms, of real] ..
  also have "\<dots> = (real n - real k) * (real n - real k - 1) / 2"
    using assms by (simp add: field_simps)
  finally show ?thesis .
qed

lemma H_closed:
  assumes "k \<le> n"
  shows "(\<Sum>i<n. (real (min i k) - kap)\<^sup>2)
           = ((real k - 1) * real k * (2 * real k - 1) / 6 + (real n - real k) * (real k)\<^sup>2)
             - 2 * kap * (real k * (real k - 1) / 2 + (real n - real k) * real k)
             + real n * kap\<^sup>2"
proof -
  have a: "(\<Sum>i<n. (real (min i k))\<^sup>2) = (real k - 1) * real k * (2 * real k - 1) / 6 + (real n - real k) * (real k)\<^sup>2"
    using sum_min_split[OF assms, of "\<lambda>i. (real i)\<^sup>2"] assms
    by (simp add: sum_index_sq)
  have b: "(\<Sum>i<n. real (min i k)) = real k * (real k - 1) / 2 + (real n - real k) * real k"
    using sum_min_split[OF assms, of real] assms
    by (simp add: sum_index)
  show ?thesis unfolding sum_shift_sq a b ..
qed

subsection \<open>The two conditions at \<open>k = n div 2 + 1\<close>\<close>

text \<open>
  With \<open>n = 2 * (a + 15)\<close> or \<open>n = 2 * (a + 15) + 1\<close> and \<open>k = a + 16\<close> both conditions
  of \<open>upper_bound_nonneg\<close> are polynomial inequalities in \<open>a\<close>, and the difference of
  their sides has no negative coefficient. The first is needed at day 7 only; the second is
  checked for each day from 1 to 7 at the smallest \<open>z\<close> of the table, 1.28.
\<close>

lemma slope_weight_even:
  fixes a n k :: real
  assumes "0 \<le> a" and "n = 2 * (a + 15)" and "k = a + 16"
  shows "((n - 1) / 2 + 7) * ((n - k) * (n - k - 1) / 2) \<le> n * (n\<^sup>2 - 1) / 12"
proof -
  have "n * (n\<^sup>2 - 1) / 12 - ((n - 1) / 2 + 7) * ((n - k) * (n - k - 1) / 2)
          = 291 + 823 / 12 * a + 23 / 4 * a ^ 2 + 1 / 6 * a ^ 3"
    unfolding assms(2,3) by (simp add: field_simps power2_eq_square power3_eq_cube)
  moreover have "0 \<le> 291 + 823 / 12 * a + 23 / 4 * a ^ 2 + 1 / 6 * a ^ 3"
    using assms(1) by (intro add_nonneg_nonneg mult_nonneg_nonneg zero_le_power) simp_all
  ultimately have "0 \<le> n * (n\<^sup>2 - 1) / 12 - ((n - 1) / 2 + 7) * ((n - k) * (n - k - 1) / 2)"
    by simp
  then show ?thesis by (simp only: diff_ge_0_iff_ge)
qed

lemma slope_weight_odd:
  fixes a n k :: real
  assumes "0 \<le> a" and "n = 2 * (a + 15) + 1" and "k = a + 16"
  shows "((n - 1) / 2 + 7) * ((n - k) * (n - k - 1) / 2) \<le> n * (n\<^sup>2 - 1) / 12"
proof -
  have "n * (n\<^sup>2 - 1) / 12 - ((n - 1) / 2 + 7) * ((n - k) * (n - k - 1) / 2)
          = 170 + 169 / 3 * a + 11 / 2 * a ^ 2 + 1 / 6 * a ^ 3"
    unfolding assms(2,3) by (simp add: field_simps power2_eq_square power3_eq_cube)
  moreover have "0 \<le> 170 + 169 / 3 * a + 11 / 2 * a ^ 2 + 1 / 6 * a ^ 3"
    using assms(1) by (intro add_nonneg_nonneg mult_nonneg_nonneg zero_le_power) simp_all
  ultimately have "0 \<le> n * (n\<^sup>2 - 1) / 12 - ((n - 1) / 2 + 7) * ((n - k) * (n - k - 1) / 2)"
    by simp
  then show ?thesis by (simp only: diff_ge_0_iff_ge)
qed

lemma width_weight_even_one:
  fixes a n k :: real
  assumes "0 \<le> a" and "n = 2 * (a + 15)" and "k = a + 16"
  shows "((n - 1) / 2 + 1)\<^sup>2 * (n * ((k - 1) * k * (2 * k - 1) / 6 + (n - k) * k\<^sup>2) - (k * (k - 1) / 2 + (n - k) * k)\<^sup>2) * (n - 1)
           \<le> (32 / 25 * (1 + 1 / 30))\<^sup>2 * (n * (n\<^sup>2 - 1) / 12)\<^sup>2 * n"
proof -
  have "(32 / 25 * (1 + 1 / 30))\<^sup>2 * (n * (n\<^sup>2 - 1) / 12)\<^sup>2 * n
          - ((n - 1) / 2 + 1)\<^sup>2 * (n * ((k - 1) * k * (2 * k - 1) / 6 + (n - k) * k\<^sup>2) - (k * (k - 1) / 2 + (n - k) * k)\<^sup>2) * (n - 1)
          = 30481217108 / 375 + 307004989157 / 7500 * a + 3948493775753 / 450000 * a ^ 2 + 5258779537907 / 5062500 * a ^ 3 + 19819964951 / 270000 * a ^ 4 + 31371725263 / 10125000 * a ^ 5 + 24423209 / 337500 * a ^ 6 + 1826881 / 2531250 * a ^ 7"
    unfolding assms(2,3) by (simp add: field_simps power2_eq_square power_numeral_reduce)
  moreover have "0 \<le> 30481217108 / 375 + 307004989157 / 7500 * a + 3948493775753 / 450000 * a ^ 2 + 5258779537907 / 5062500 * a ^ 3 + 19819964951 / 270000 * a ^ 4 + 31371725263 / 10125000 * a ^ 5 + 24423209 / 337500 * a ^ 6 + 1826881 / 2531250 * a ^ 7"
    using assms(1) by (intro add_nonneg_nonneg mult_nonneg_nonneg zero_le_power) simp_all
  ultimately have "0 \<le> (32 / 25 * (1 + 1 / 30))\<^sup>2 * (n * (n\<^sup>2 - 1) / 12)\<^sup>2 * n
          - ((n - 1) / 2 + 1)\<^sup>2 * (n * ((k - 1) * k * (2 * k - 1) / 6 + (n - k) * k\<^sup>2) - (k * (k - 1) / 2 + (n - k) * k)\<^sup>2) * (n - 1)"
    by simp
  then show ?thesis by (simp only: diff_ge_0_iff_ge)
qed

lemma width_weight_even_two:
  fixes a n k :: real
  assumes "0 \<le> a" and "n = 2 * (a + 15)" and "k = a + 16"
  shows "((n - 1) / 2 + 2)\<^sup>2 * (n * ((k - 1) * k * (2 * k - 1) / 6 + (n - k) * k\<^sup>2) - (k * (k - 1) / 2 + (n - k) * k)\<^sup>2) * (n - 1)
           \<le> (32 / 25 * (1 + 2 / 30))\<^sup>2 * (n * (n\<^sup>2 - 1) / 12)\<^sup>2 * n"
proof -
  have "(32 / 25 * (1 + 2 / 30))\<^sup>2 * (n * (n\<^sup>2 - 1) / 12)\<^sup>2 * n
          - ((n - 1) / 2 + 2)\<^sup>2 * (n * ((k - 1) * k * (2 * k - 1) / 6 + (n - k) * k\<^sup>2) - (k * (k - 1) / 2 + (n - k) * k)\<^sup>2) * (n - 1)
          = 27816917972 / 375 + 297314493413 / 7500 * a + 4002126140777 / 450000 * a ^ 2 + 5523339468413 / 5062500 * a ^ 3 + 21411457559 / 270000 * a ^ 4 + 34660378867 / 10125000 * a ^ 5 + 27473381 / 337500 * a ^ 6 + 2084929 / 2531250 * a ^ 7"
    unfolding assms(2,3) by (simp add: field_simps power2_eq_square power_numeral_reduce)
  moreover have "0 \<le> 27816917972 / 375 + 297314493413 / 7500 * a + 4002126140777 / 450000 * a ^ 2 + 5523339468413 / 5062500 * a ^ 3 + 21411457559 / 270000 * a ^ 4 + 34660378867 / 10125000 * a ^ 5 + 27473381 / 337500 * a ^ 6 + 2084929 / 2531250 * a ^ 7"
    using assms(1) by (intro add_nonneg_nonneg mult_nonneg_nonneg zero_le_power) simp_all
  ultimately have "0 \<le> (32 / 25 * (1 + 2 / 30))\<^sup>2 * (n * (n\<^sup>2 - 1) / 12)\<^sup>2 * n
          - ((n - 1) / 2 + 2)\<^sup>2 * (n * ((k - 1) * k * (2 * k - 1) / 6 + (n - k) * k\<^sup>2) - (k * (k - 1) / 2 + (n - k) * k)\<^sup>2) * (n - 1)"
    by simp
  then show ?thesis by (simp only: diff_ge_0_iff_ge)
qed

lemma width_weight_even_three:
  fixes a n k :: real
  assumes "0 \<le> a" and "n = 2 * (a + 15)" and "k = a + 16"
  shows "((n - 1) / 2 + 3)\<^sup>2 * (n * ((k - 1) * k * (2 * k - 1) / 6 + (n - k) * k\<^sup>2) - (k * (k - 1) / 2 + (n - k) * k)\<^sup>2) * (n - 1)
           \<le> (32 / 25 * (1 + 3 / 30))\<^sup>2 * (n * (n\<^sup>2 - 1) / 12)\<^sup>2 * n"
proof -
  have "(32 / 25 * (1 + 3 / 30))\<^sup>2 * (n * (n\<^sup>2 - 1) / 12)\<^sup>2 * n
          - ((n - 1) / 2 + 3)\<^sup>2 * (n * ((k - 1) * k * (2 * k - 1) / 6 + (n - k) * k\<^sup>2) - (k * (k - 1) / 2 + (n - k) * k)\<^sup>2) * (n - 1)
          = 8261888764 / 125 + 95287917231 / 2500 * a + 1350160926299 / 150000 * a ^ 2 + 644038985327 / 562500 * a ^ 3 + 2563443511 / 30000 * a ^ 4 + 4231885543 / 1125000 * a ^ 5 + 3404249 / 37500 * a ^ 6 + 261241 / 281250 * a ^ 7"
    unfolding assms(2,3) by (simp add: field_simps power2_eq_square power_numeral_reduce)
  moreover have "0 \<le> 8261888764 / 125 + 95287917231 / 2500 * a + 1350160926299 / 150000 * a ^ 2 + 644038985327 / 562500 * a ^ 3 + 2563443511 / 30000 * a ^ 4 + 4231885543 / 1125000 * a ^ 5 + 3404249 / 37500 * a ^ 6 + 261241 / 281250 * a ^ 7"
    using assms(1) by (intro add_nonneg_nonneg mult_nonneg_nonneg zero_le_power) simp_all
  ultimately have "0 \<le> (32 / 25 * (1 + 3 / 30))\<^sup>2 * (n * (n\<^sup>2 - 1) / 12)\<^sup>2 * n
          - ((n - 1) / 2 + 3)\<^sup>2 * (n * ((k - 1) * k * (2 * k - 1) / 6 + (n - k) * k\<^sup>2) - (k * (k - 1) / 2 + (n - k) * k)\<^sup>2) * (n - 1)"
    by simp
  then show ?thesis by (simp only: diff_ge_0_iff_ge)
qed

lemma width_weight_even_four:
  fixes a n k :: real
  assumes "0 \<le> a" and "n = 2 * (a + 15)" and "k = a + 16"
  shows "((n - 1) / 2 + 4)\<^sup>2 * (n * ((k - 1) * k * (2 * k - 1) / 6 + (n - k) * k\<^sup>2) - (k * (k - 1) / 2 + (n - k) * k)\<^sup>2) * (n - 1)
           \<le> (32 / 25 * (1 + 4 / 30))\<^sup>2 * (n * (n\<^sup>2 - 1) / 12)\<^sup>2 * n"
proof -
  have "(32 / 25 * (1 + 4 / 30))\<^sup>2 * (n * (n\<^sup>2 - 1) / 12)\<^sup>2 * n
          - ((n - 1) / 2 + 4)\<^sup>2 * (n * ((k - 1) * k * (2 * k - 1) / 6 + (n - k) * k\<^sup>2) - (k * (k - 1) / 2 + (n - k) * k)\<^sup>2) * (n - 1)
          = 21387462068 / 375 + 272652763997 / 7500 * a + 4093563690113 / 450000 * a ^ 2 + 6077813736497 / 5062500 * a ^ 3 + 24798567071 / 270000 * a ^ 4 + 41651498323 / 10125000 * a ^ 5 + 33917789 / 337500 * a ^ 6 + 2625601 / 2531250 * a ^ 7"
    unfolding assms(2,3) by (simp add: field_simps power2_eq_square power_numeral_reduce)
  moreover have "0 \<le> 21387462068 / 375 + 272652763997 / 7500 * a + 4093563690113 / 450000 * a ^ 2 + 6077813736497 / 5062500 * a ^ 3 + 24798567071 / 270000 * a ^ 4 + 41651498323 / 10125000 * a ^ 5 + 33917789 / 337500 * a ^ 6 + 2625601 / 2531250 * a ^ 7"
    using assms(1) by (intro add_nonneg_nonneg mult_nonneg_nonneg zero_le_power) simp_all
  ultimately have "0 \<le> (32 / 25 * (1 + 4 / 30))\<^sup>2 * (n * (n\<^sup>2 - 1) / 12)\<^sup>2 * n
          - ((n - 1) / 2 + 4)\<^sup>2 * (n * ((k - 1) * k * (2 * k - 1) / 6 + (n - k) * k\<^sup>2) - (k * (k - 1) / 2 + (n - k) * k)\<^sup>2) * (n - 1)"
    by simp
  then show ?thesis by (simp only: diff_ge_0_iff_ge)
qed

lemma width_weight_even_five:
  fixes a n k :: real
  assumes "0 \<le> a" and "n = 2 * (a + 15)" and "k = a + 16"
  shows "((n - 1) / 2 + 5)\<^sup>2 * (n * ((k - 1) * k * (2 * k - 1) / 6 + (n - k) * k\<^sup>2) - (k * (k - 1) / 2 + (n - k) * k)\<^sup>2) * (n - 1)
           \<le> (32 / 25 * (1 + 5 / 30))\<^sup>2 * (n * (n\<^sup>2 - 1) / 12)\<^sup>2 * n"
proof -
  have "(32 / 25 * (1 + 5 / 30))\<^sup>2 * (n * (n\<^sup>2 - 1) / 12)\<^sup>2 * n
          - ((n - 1) / 2 + 5)\<^sup>2 * (n * ((k - 1) * k * (2 * k - 1) / 6 + (n - k) * k\<^sup>2) - (k * (k - 1) / 2 + (n - k) * k)\<^sup>2) * (n - 1)
          = 704892212 / 15 + 10307261213 / 300 * a + 165254754977 / 18000 * a ^ 2 + 254709122963 / 202500 * a ^ 3 + 1063767359 / 10800 * a ^ 4 + 1814158567 / 405000 * a ^ 5 + 1492481 / 13500 * a ^ 6 + 116329 / 101250 * a ^ 7"
    unfolding assms(2,3) by (simp add: field_simps power2_eq_square power_numeral_reduce)
  moreover have "0 \<le> 704892212 / 15 + 10307261213 / 300 * a + 165254754977 / 18000 * a ^ 2 + 254709122963 / 202500 * a ^ 3 + 1063767359 / 10800 * a ^ 4 + 1814158567 / 405000 * a ^ 5 + 1492481 / 13500 * a ^ 6 + 116329 / 101250 * a ^ 7"
    using assms(1) by (intro add_nonneg_nonneg mult_nonneg_nonneg zero_le_power) simp_all
  ultimately have "0 \<le> (32 / 25 * (1 + 5 / 30))\<^sup>2 * (n * (n\<^sup>2 - 1) / 12)\<^sup>2 * n
          - ((n - 1) / 2 + 5)\<^sup>2 * (n * ((k - 1) * k * (2 * k - 1) / 6 + (n - k) * k\<^sup>2) - (k * (k - 1) / 2 + (n - k) * k)\<^sup>2) * (n - 1)"
    by simp
  then show ?thesis by (simp only: diff_ge_0_iff_ge)
qed

lemma width_weight_even_six:
  fixes a n k :: real
  assumes "0 \<le> a" and "n = 2 * (a + 15)" and "k = a + 16"
  shows "((n - 1) / 2 + 6)\<^sup>2 * (n * ((k - 1) * k * (2 * k - 1) / 6 + (n - k) * k\<^sup>2) - (k * (k - 1) / 2 + (n - k) * k)\<^sup>2) * (n - 1)
           \<le> (32 / 25 * (1 + 6 / 30))\<^sup>2 * (n * (n\<^sup>2 - 1) / 12)\<^sup>2 * n"
proof -
  have "(32 / 25 * (1 + 6 / 30))\<^sup>2 * (n * (n\<^sup>2 - 1) / 12)\<^sup>2 * n
          - ((n - 1) / 2 + 6)\<^sup>2 * (n * ((k - 1) * k * (2 * k - 1) / 6 + (n - k) * k\<^sup>2) - (k * (k - 1) / 2 + (n - k) * k)\<^sup>2) * (n - 1)
          = 4496731996 / 125 + 80316683559 / 2500 * a + 1387966110611 / 150000 * a ^ 2 + 82297455317 / 62500 * a ^ 3 + 3161982479 / 30000 * a ^ 4 + 1822013609 / 375000 * a ^ 5 + 1511887 / 12500 * a ^ 6 + 118483 / 93750 * a ^ 7"
    unfolding assms(2,3) by (simp add: field_simps power2_eq_square power_numeral_reduce)
  moreover have "0 \<le> 4496731996 / 125 + 80316683559 / 2500 * a + 1387966110611 / 150000 * a ^ 2 + 82297455317 / 62500 * a ^ 3 + 3161982479 / 30000 * a ^ 4 + 1822013609 / 375000 * a ^ 5 + 1511887 / 12500 * a ^ 6 + 118483 / 93750 * a ^ 7"
    using assms(1) by (intro add_nonneg_nonneg mult_nonneg_nonneg zero_le_power) simp_all
  ultimately have "0 \<le> (32 / 25 * (1 + 6 / 30))\<^sup>2 * (n * (n\<^sup>2 - 1) / 12)\<^sup>2 * n
          - ((n - 1) / 2 + 6)\<^sup>2 * (n * ((k - 1) * k * (2 * k - 1) / 6 + (n - k) * k\<^sup>2) - (k * (k - 1) / 2 + (n - k) * k)\<^sup>2) * (n - 1)"
    by simp
  then show ?thesis by (simp only: diff_ge_0_iff_ge)
qed

lemma width_weight_even_seven:
  fixes a n k :: real
  assumes "0 \<le> a" and "n = 2 * (a + 15)" and "k = a + 16"
  shows "((n - 1) / 2 + 7)\<^sup>2 * (n * ((k - 1) * k * (2 * k - 1) / 6 + (n - k) * k\<^sup>2) - (k * (k - 1) / 2 + (n - k) * k)\<^sup>2) * (n - 1)
           \<le> (32 / 25 * (1 + 7 / 30))\<^sup>2 * (n * (n\<^sup>2 - 1) / 12)\<^sup>2 * n"
proof -
  have "(32 / 25 * (1 + 7 / 30))\<^sup>2 * (n * (n\<^sup>2 - 1) / 12)\<^sup>2 * n
          - ((n - 1) / 2 + 7)\<^sup>2 * (n * ((k - 1) * k * (2 * k - 1) / 6 + (n - k) * k\<^sup>2) - (k * (k - 1) / 2 + (n - k) * k)\<^sup>2) * (n - 1)
          = 8991134132 / 375 + 222458325053 / 7500 * a + 4191152062337 / 450000 * a ^ 2 + 6972911156303 / 5062500 * a ^ 3 + 30389542079 / 270000 * a ^ 4 + 53172708127 / 10125000 * a ^ 5 + 44444561 / 337500 * a ^ 6 + 3498049 / 2531250 * a ^ 7"
    unfolding assms(2,3) by (simp add: field_simps power2_eq_square power_numeral_reduce)
  moreover have "0 \<le> 8991134132 / 375 + 222458325053 / 7500 * a + 4191152062337 / 450000 * a ^ 2 + 6972911156303 / 5062500 * a ^ 3 + 30389542079 / 270000 * a ^ 4 + 53172708127 / 10125000 * a ^ 5 + 44444561 / 337500 * a ^ 6 + 3498049 / 2531250 * a ^ 7"
    using assms(1) by (intro add_nonneg_nonneg mult_nonneg_nonneg zero_le_power) simp_all
  ultimately have "0 \<le> (32 / 25 * (1 + 7 / 30))\<^sup>2 * (n * (n\<^sup>2 - 1) / 12)\<^sup>2 * n
          - ((n - 1) / 2 + 7)\<^sup>2 * (n * ((k - 1) * k * (2 * k - 1) / 6 + (n - k) * k\<^sup>2) - (k * (k - 1) / 2 + (n - k) * k)\<^sup>2) * (n - 1)"
    by simp
  then show ?thesis by (simp only: diff_ge_0_iff_ge)
qed

lemma width_weight_odd_one:
  fixes a n k :: real
  assumes "0 \<le> a" and "n = 2 * (a + 15) + 1" and "k = a + 16"
  shows "((n - 1) / 2 + 1)\<^sup>2 * (n * ((k - 1) * k * (2 * k - 1) / 6 + (n - k) * k\<^sup>2) - (k * (k - 1) / 2 + (n - k) * k)\<^sup>2) * (n - 1)
           \<le> (32 / 25 * (1 + 1 / 30))\<^sup>2 * (n * (n\<^sup>2 - 1) / 12)\<^sup>2 * n"
proof -
  have "(32 / 25 * (1 + 1 / 30))\<^sup>2 * (n * (n\<^sup>2 - 1) / 12)\<^sup>2 * n
          - ((n - 1) / 2 + 1)\<^sup>2 * (n * ((k - 1) * k * (2 * k - 1) / 6 + (n - k) * k\<^sup>2) - (k * (k - 1) / 2 + (n - k) * k)\<^sup>2) * (n - 1)
          = 671824039936 / 5625 + 4757006657792 / 84375 * a + 14397561521776 / 1265625 * a ^ 2 + 1610031478253 / 1265625 * a ^ 3 + 1724614723 / 20250 * a ^ 4 + 8641880581 / 2531250 * a ^ 5 + 192099401 / 2531250 * a ^ 6 + 1826881 / 2531250 * a ^ 7"
    unfolding assms(2,3) by (simp add: field_simps power2_eq_square power_numeral_reduce)
  moreover have "0 \<le> 671824039936 / 5625 + 4757006657792 / 84375 * a + 14397561521776 / 1265625 * a ^ 2 + 1610031478253 / 1265625 * a ^ 3 + 1724614723 / 20250 * a ^ 4 + 8641880581 / 2531250 * a ^ 5 + 192099401 / 2531250 * a ^ 6 + 1826881 / 2531250 * a ^ 7"
    using assms(1) by (intro add_nonneg_nonneg mult_nonneg_nonneg zero_le_power) simp_all
  ultimately have "0 \<le> (32 / 25 * (1 + 1 / 30))\<^sup>2 * (n * (n\<^sup>2 - 1) / 12)\<^sup>2 * n
          - ((n - 1) / 2 + 1)\<^sup>2 * (n * ((k - 1) * k * (2 * k - 1) / 6 + (n - k) * k\<^sup>2) - (k * (k - 1) / 2 + (n - k) * k)\<^sup>2) * (n - 1)"
    by simp
  then show ?thesis by (simp only: diff_ge_0_iff_ge)
qed

lemma width_weight_odd_two:
  fixes a n k :: real
  assumes "0 \<le> a" and "n = 2 * (a + 15) + 1" and "k = a + 16"
  shows "((n - 1) / 2 + 2)\<^sup>2 * (n * ((k - 1) * k * (2 * k - 1) / 6 + (n - k) * k\<^sup>2) - (k * (k - 1) / 2 + (n - k) * k)\<^sup>2) * (n - 1)
           \<le> (32 / 25 * (1 + 2 / 30))\<^sup>2 * (n * (n\<^sup>2 - 1) / 12)\<^sup>2 * n"
proof -
  have "(32 / 25 * (1 + 2 / 30))\<^sup>2 * (n * (n\<^sup>2 - 1) / 12)\<^sup>2 * n
          - ((n - 1) / 2 + 2)\<^sup>2 * (n * ((k - 1) * k * (2 * k - 1) / 6 + (n - k) * k\<^sup>2) - (k * (k - 1) / 2 + (n - k) * k)\<^sup>2) * (n - 1)
          = 639567417424 / 5625 + 4714525718003 / 84375 * a + 29519607344843 / 2531250 * a ^ 2 + 3397001548429 / 2531250 * a ^ 3 + 932162441 / 10125 * a ^ 4 + 4769545052 / 1265625 * a ^ 5 + 215878859 / 2531250 * a ^ 6 + 2084929 / 2531250 * a ^ 7"
    unfolding assms(2,3) by (simp add: field_simps power2_eq_square power_numeral_reduce)
  moreover have "0 \<le> 639567417424 / 5625 + 4714525718003 / 84375 * a + 29519607344843 / 2531250 * a ^ 2 + 3397001548429 / 2531250 * a ^ 3 + 932162441 / 10125 * a ^ 4 + 4769545052 / 1265625 * a ^ 5 + 215878859 / 2531250 * a ^ 6 + 2084929 / 2531250 * a ^ 7"
    using assms(1) by (intro add_nonneg_nonneg mult_nonneg_nonneg zero_le_power) simp_all
  ultimately have "0 \<le> (32 / 25 * (1 + 2 / 30))\<^sup>2 * (n * (n\<^sup>2 - 1) / 12)\<^sup>2 * n
          - ((n - 1) / 2 + 2)\<^sup>2 * (n * ((k - 1) * k * (2 * k - 1) / 6 + (n - k) * k\<^sup>2) - (k * (k - 1) / 2 + (n - k) * k)\<^sup>2) * (n - 1)"
    by simp
  then show ?thesis by (simp only: diff_ge_0_iff_ge)
qed

lemma width_weight_odd_three:
  fixes a n k :: real
  assumes "0 \<le> a" and "n = 2 * (a + 15) + 1" and "k = a + 16"
  shows "((n - 1) / 2 + 3)\<^sup>2 * (n * ((k - 1) * k * (2 * k - 1) / 6 + (n - k) * k\<^sup>2) - (k * (k - 1) / 2 + (n - k) * k)\<^sup>2) * (n - 1)
           \<le> (32 / 25 * (1 + 3 / 30))\<^sup>2 * (n * (n\<^sup>2 - 1) / 12)\<^sup>2 * n"
proof -
  have "(32 / 25 * (1 + 3 / 30))\<^sup>2 * (n * (n\<^sup>2 - 1) / 12)\<^sup>2 * n
          - ((n - 1) / 2 + 3)\<^sup>2 * (n * ((k - 1) * k * (2 * k - 1) / 6 + (n - k) * k\<^sup>2) - (k * (k - 1) / 2 + (n - k) * k)\<^sup>2) * (n - 1)
          = 66867340096 / 625 + 517107000812 / 9375 * a + 1679401023586 / 140625 * a ^ 2 + 198880427933 / 140625 * a ^ 3 + 223321603 / 2250 * a ^ 4 + 1163711941 / 281250 * a ^ 5 + 26727461 / 281250 * a ^ 6 + 261241 / 281250 * a ^ 7"
    unfolding assms(2,3) by (simp add: field_simps power2_eq_square power_numeral_reduce)
  moreover have "0 \<le> 66867340096 / 625 + 517107000812 / 9375 * a + 1679401023586 / 140625 * a ^ 2 + 198880427933 / 140625 * a ^ 3 + 223321603 / 2250 * a ^ 4 + 1163711941 / 281250 * a ^ 5 + 26727461 / 281250 * a ^ 6 + 261241 / 281250 * a ^ 7"
    using assms(1) by (intro add_nonneg_nonneg mult_nonneg_nonneg zero_le_power) simp_all
  ultimately have "0 \<le> (32 / 25 * (1 + 3 / 30))\<^sup>2 * (n * (n\<^sup>2 - 1) / 12)\<^sup>2 * n
          - ((n - 1) / 2 + 3)\<^sup>2 * (n * ((k - 1) * k * (2 * k - 1) / 6 + (n - k) * k\<^sup>2) - (k * (k - 1) / 2 + (n - k) * k)\<^sup>2) * (n - 1)"
    by simp
  then show ?thesis by (simp only: diff_ge_0_iff_ge)
qed

lemma width_weight_odd_four:
  fixes a n k :: real
  assumes "0 \<le> a" and "n = 2 * (a + 15) + 1" and "k = a + 16"
  shows "((n - 1) / 2 + 4)\<^sup>2 * (n * ((k - 1) * k * (2 * k - 1) / 6 + (n - k) * k\<^sup>2) - (k * (k - 1) / 2 + (n - k) * k)\<^sup>2) * (n - 1)
           \<le> (32 / 25 * (1 + 4 / 30))\<^sup>2 * (n * (n\<^sup>2 - 1) / 12)\<^sup>2 * n"
proof -
  have "(32 / 25 * (1 + 4 / 30))\<^sup>2 * (n * (n\<^sup>2 - 1) / 12)\<^sup>2 * n
          - ((n - 1) / 2 + 4)\<^sup>2 * (n * ((k - 1) * k * (2 * k - 1) / 6 + (n - k) * k\<^sup>2) - (k * (k - 1) / 2 + (n - k) * k)\<^sup>2) * (n - 1)
          = 558539970256 / 5625 + 4575318525707 / 84375 * a + 30923956282667 / 2531250 * a ^ 2 + 3768601419601 / 2531250 * a ^ 3 + 1080661679 / 10125 * a ^ 4 + 5722416338 / 1265625 * a ^ 5 + 266104271 / 2531250 * a ^ 6 + 2625601 / 2531250 * a ^ 7"
    unfolding assms(2,3) by (simp add: field_simps power2_eq_square power_numeral_reduce)
  moreover have "0 \<le> 558539970256 / 5625 + 4575318525707 / 84375 * a + 30923956282667 / 2531250 * a ^ 2 + 3768601419601 / 2531250 * a ^ 3 + 1080661679 / 10125 * a ^ 4 + 5722416338 / 1265625 * a ^ 5 + 266104271 / 2531250 * a ^ 6 + 2625601 / 2531250 * a ^ 7"
    using assms(1) by (intro add_nonneg_nonneg mult_nonneg_nonneg zero_le_power) simp_all
  ultimately have "0 \<le> (32 / 25 * (1 + 4 / 30))\<^sup>2 * (n * (n\<^sup>2 - 1) / 12)\<^sup>2 * n
          - ((n - 1) / 2 + 4)\<^sup>2 * (n * ((k - 1) * k * (2 * k - 1) / 6 + (n - k) * k\<^sup>2) - (k * (k - 1) / 2 + (n - k) * k)\<^sup>2) * (n - 1)"
    by simp
  then show ?thesis by (simp only: diff_ge_0_iff_ge)
qed

lemma width_weight_odd_five:
  fixes a n k :: real
  assumes "0 \<le> a" and "n = 2 * (a + 15) + 1" and "k = a + 16"
  shows "((n - 1) / 2 + 5)\<^sup>2 * (n * ((k - 1) * k * (2 * k - 1) / 6 + (n - k) * k\<^sup>2) - (k * (k - 1) / 2 + (n - k) * k)\<^sup>2) * (n - 1)
           \<le> (32 / 25 * (1 + 5 / 30))\<^sup>2 * (n * (n\<^sup>2 - 1) / 12)\<^sup>2 * n"
proof -
  have "(32 / 25 * (1 + 5 / 30))\<^sup>2 * (n * (n\<^sup>2 - 1) / 12)\<^sup>2 * n
          - ((n - 1) / 2 + 5)\<^sup>2 * (n * ((k - 1) * k * (2 * k - 1) / 6 + (n - k) * k\<^sup>2) - (k * (k - 1) / 2 + (n - k) * k)\<^sup>2) * (n - 1)
          = 20390765824 / 225 + 179143690928 / 3375 * a + 632076418384 / 50625 * a ^ 2 + 79265253977 / 50625 * a ^ 3 + 92744467 / 810 * a ^ 4 + 498134629 / 101250 * a ^ 5 + 11702009 / 101250 * a ^ 6 + 116329 / 101250 * a ^ 7"
    unfolding assms(2,3) by (simp add: field_simps power2_eq_square power_numeral_reduce)
  moreover have "0 \<le> 20390765824 / 225 + 179143690928 / 3375 * a + 632076418384 / 50625 * a ^ 2 + 79265253977 / 50625 * a ^ 3 + 92744467 / 810 * a ^ 4 + 498134629 / 101250 * a ^ 5 + 11702009 / 101250 * a ^ 6 + 116329 / 101250 * a ^ 7"
    using assms(1) by (intro add_nonneg_nonneg mult_nonneg_nonneg zero_le_power) simp_all
  ultimately have "0 \<le> (32 / 25 * (1 + 5 / 30))\<^sup>2 * (n * (n\<^sup>2 - 1) / 12)\<^sup>2 * n
          - ((n - 1) / 2 + 5)\<^sup>2 * (n * ((k - 1) * k * (2 * k - 1) / 6 + (n - k) * k\<^sup>2) - (k * (k - 1) / 2 + (n - k) * k)\<^sup>2) * (n - 1)"
    by simp
  then show ?thesis by (simp only: diff_ge_0_iff_ge)
qed

lemma width_weight_odd_six:
  fixes a n k :: real
  assumes "0 \<le> a" and "n = 2 * (a + 15) + 1" and "k = a + 16"
  shows "((n - 1) / 2 + 6)\<^sup>2 * (n * ((k - 1) * k * (2 * k - 1) / 6 + (n - k) * k\<^sup>2) - (k * (k - 1) / 2 + (n - k) * k)\<^sup>2) * (n - 1)
           \<le> (32 / 25 * (1 + 6 / 30))\<^sup>2 * (n * (n\<^sup>2 - 1) / 12)\<^sup>2 * n"
proof -
  have "(32 / 25 * (1 + 6 / 30))\<^sup>2 * (n * (n\<^sup>2 - 1) / 12)\<^sup>2 * n
          - ((n - 1) / 2 + 6)\<^sup>2 * (n * ((k - 1) * k * (2 * k - 1) / 6 + (n - k) * k\<^sup>2) - (k * (k - 1) / 2 + (n - k) * k)\<^sup>2) * (n - 1)
          = 50610398544 / 625 + 161621638881 / 3125 * a + 398380399187 / 31250 * a ^ 2 + 51405327661 / 31250 * a ^ 3 + 45958507 / 375 * a ^ 4 + 249981604 / 46875 * a ^ 5 + 11847593 / 93750 * a ^ 6 + 118483 / 93750 * a ^ 7"
    unfolding assms(2,3) by (simp add: field_simps power2_eq_square power_numeral_reduce)
  moreover have "0 \<le> 50610398544 / 625 + 161621638881 / 3125 * a + 398380399187 / 31250 * a ^ 2 + 51405327661 / 31250 * a ^ 3 + 45958507 / 375 * a ^ 4 + 249981604 / 46875 * a ^ 5 + 11847593 / 93750 * a ^ 6 + 118483 / 93750 * a ^ 7"
    using assms(1) by (intro add_nonneg_nonneg mult_nonneg_nonneg zero_le_power) simp_all
  ultimately have "0 \<le> (32 / 25 * (1 + 6 / 30))\<^sup>2 * (n * (n\<^sup>2 - 1) / 12)\<^sup>2 * n
          - ((n - 1) / 2 + 6)\<^sup>2 * (n * ((k - 1) * k * (2 * k - 1) / 6 + (n - k) * k\<^sup>2) - (k * (k - 1) / 2 + (n - k) * k)\<^sup>2) * (n - 1)"
    by simp
  then show ?thesis by (simp only: diff_ge_0_iff_ge)
qed

lemma width_weight_odd_seven:
  fixes a n k :: real
  assumes "0 \<le> a" and "n = 2 * (a + 15) + 1" and "k = a + 16"
  shows "((n - 1) / 2 + 7)\<^sup>2 * (n * ((k - 1) * k * (2 * k - 1) / 6 + (n - k) * k\<^sup>2) - (k * (k - 1) / 2 + (n - k) * k)\<^sup>2) * (n - 1)
           \<le> (32 / 25 * (1 + 7 / 30))\<^sup>2 * (n * (n\<^sup>2 - 1) / 12)\<^sup>2 * n"
proof -
  have "(32 / 25 * (1 + 7 / 30))\<^sup>2 * (n * (n\<^sup>2 - 1) / 12)\<^sup>2 * n
          - ((n - 1) / 2 + 7)\<^sup>2 * (n * ((k - 1) * k * (2 * k - 1) / 6 + (n - k) * k\<^sup>2) - (k * (k - 1) / 2 + (n - k) * k)\<^sup>2) * (n - 1)
          = 395713294144 / 5625 + 4230894455468 / 84375 * a + 16459465263754 / 1265625 * a ^ 2 + 2185153972337 / 1265625 * a ^ 3 + 2650766467 / 20250 * a ^ 4 + 14581755349 / 2531250 * a ^ 5 + 348108629 / 2531250 * a ^ 6 + 3498049 / 2531250 * a ^ 7"
    unfolding assms(2,3) by (simp add: field_simps power2_eq_square power_numeral_reduce)
  moreover have "0 \<le> 395713294144 / 5625 + 4230894455468 / 84375 * a + 16459465263754 / 1265625 * a ^ 2 + 2185153972337 / 1265625 * a ^ 3 + 2650766467 / 20250 * a ^ 4 + 14581755349 / 2531250 * a ^ 5 + 348108629 / 2531250 * a ^ 6 + 3498049 / 2531250 * a ^ 7"
    using assms(1) by (intro add_nonneg_nonneg mult_nonneg_nonneg zero_le_power) simp_all
  ultimately have "0 \<le> (32 / 25 * (1 + 7 / 30))\<^sup>2 * (n * (n\<^sup>2 - 1) / 12)\<^sup>2 * n
          - ((n - 1) / 2 + 7)\<^sup>2 * (n * ((k - 1) * k * (2 * k - 1) / 6 + (n - k) * k\<^sup>2) - (k * (k - 1) / 2 + (n - k) * k)\<^sup>2) * (n - 1)"
    by simp
  then show ?thesis by (simp only: diff_ge_0_iff_ge)
qed

lemma half_split:
  fixes n :: nat
  assumes "30 \<le> n"
  obtains a :: real where "0 \<le> a" "real (n div 2 + 1) = a + 16"
    "real n = 2 * (a + 15) \<or> real n = 2 * (a + 15) + 1"
proof -
  define j where "j = n div 2"
  have j15: "15 \<le> j" unfolding j_def using assms by arith
  have "n = 2 * j \<or> n = 2 * j + 1" unfolding j_def by arith
  then have "real n = 2 * real j \<or> real n = 2 * real j + 1" by auto
  moreover have "0 \<le> real j - 15" using j15 by simp
  moreover have "real (j + 1) = (real j - 15) + 16" by simp
  ultimately show ?thesis using that[of "real j - 15"] unfolding j_def by simp
qed

lemma slope_weight:
  fixes n :: nat and d :: int
  assumes n: "30 \<le> n" and d: "1 \<le> d" "d \<le> 7"
  shows "((real n - 1) / 2 + real_of_int d) * (\<Sum>i<n. real i - real (min i (n div 2 + 1)))
           \<le> real n * ((real n)\<^sup>2 - 1) / 12"
proof -
  define k where "k = n div 2 + 1"
  have k_le: "k \<le> n" unfolding k_def using n by arith
  define T where "T = (\<Sum>i<n. real i - real (min i k))"
  have T0: "0 \<le> T" unfolding T_def by (rule sum_nonneg) simp
  have T: "T = (real n - real k) * (real n - real k - 1) / 2"
    unfolding T_def by (rule T_closed[OF k_le])
  from half_split[OF n] obtain a :: real where a0: "0 \<le> a" and rk: "real k = a + 16"
    and par: "real n = 2 * (a + 15) \<or> real n = 2 * (a + 15) + 1"
    unfolding k_def by blast
  have "(real n - 1) / 2 + real_of_int d \<le> (real n - 1) / 2 + 7" using d by simp
  then have "((real n - 1) / 2 + real_of_int d) * T \<le> ((real n - 1) / 2 + 7) * T"
    using T0 by (rule mult_right_mono)
  moreover have "((real n - 1) / 2 + 7) * T \<le> real n * ((real n)\<^sup>2 - 1) / 12"
    unfolding T using par slope_weight_even[OF a0 _ rk] slope_weight_odd[OF a0 _ rk] by blast
  ultimately show ?thesis unfolding T_def k_def by simp
qed

lemma width_weight_even:
  fixes a n k :: real and d :: int
  assumes a0: "0 \<le> a" and even: "n = 2 * (a + 15)" and rk: "k = a + 16"
      and d: "1 \<le> d" "d \<le> 7"
  shows "((n - 1) / 2 + real_of_int d)\<^sup>2 * (n * ((k - 1) * k * (2 * k - 1) / 6 + (n - k) * k\<^sup>2) - (k * (k - 1) / 2 + (n - k) * k)\<^sup>2) * (n - 1)
           \<le> (32 / 25 * (1 + real_of_int d / 30))\<^sup>2 * (n * (n\<^sup>2 - 1) / 12)\<^sup>2 * n"
proof -
  have "d = 1 \<or> d = 2 \<or> d = 3 \<or> d = 4 \<or> d = 5 \<or> d = 6 \<or> d = 7" using d by arith
  then show ?thesis
  proof (elim disjE)
    assume "d = 1"
    show ?thesis unfolding \<open>d = 1\<close> of_int_1
      by (rule width_weight_even_one[OF a0 even rk])
  next
    assume "d = 2"
    show ?thesis unfolding \<open>d = 2\<close> of_int_numeral
      by (rule width_weight_even_two[OF a0 even rk])
  next
    assume "d = 3"
    show ?thesis unfolding \<open>d = 3\<close> of_int_numeral
      by (rule width_weight_even_three[OF a0 even rk])
  next
    assume "d = 4"
    show ?thesis unfolding \<open>d = 4\<close> of_int_numeral
      by (rule width_weight_even_four[OF a0 even rk])
  next
    assume "d = 5"
    show ?thesis unfolding \<open>d = 5\<close> of_int_numeral
      by (rule width_weight_even_five[OF a0 even rk])
  next
    assume "d = 6"
    show ?thesis unfolding \<open>d = 6\<close> of_int_numeral
      by (rule width_weight_even_six[OF a0 even rk])
  next
    assume "d = 7"
    show ?thesis unfolding \<open>d = 7\<close> of_int_numeral
      by (rule width_weight_even_seven[OF a0 even rk])
  qed
qed

lemma width_weight_odd:
  fixes a n k :: real and d :: int
  assumes a0: "0 \<le> a" and odd: "n = 2 * (a + 15) + 1" and rk: "k = a + 16"
      and d: "1 \<le> d" "d \<le> 7"
  shows "((n - 1) / 2 + real_of_int d)\<^sup>2 * (n * ((k - 1) * k * (2 * k - 1) / 6 + (n - k) * k\<^sup>2) - (k * (k - 1) / 2 + (n - k) * k)\<^sup>2) * (n - 1)
           \<le> (32 / 25 * (1 + real_of_int d / 30))\<^sup>2 * (n * (n\<^sup>2 - 1) / 12)\<^sup>2 * n"
proof -
  have "d = 1 \<or> d = 2 \<or> d = 3 \<or> d = 4 \<or> d = 5 \<or> d = 6 \<or> d = 7" using d by arith
  then show ?thesis
  proof (elim disjE)
    assume "d = 1"
    show ?thesis unfolding \<open>d = 1\<close> of_int_1
      by (rule width_weight_odd_one[OF a0 odd rk])
  next
    assume "d = 2"
    show ?thesis unfolding \<open>d = 2\<close> of_int_numeral
      by (rule width_weight_odd_two[OF a0 odd rk])
  next
    assume "d = 3"
    show ?thesis unfolding \<open>d = 3\<close> of_int_numeral
      by (rule width_weight_odd_three[OF a0 odd rk])
  next
    assume "d = 4"
    show ?thesis unfolding \<open>d = 4\<close> of_int_numeral
      by (rule width_weight_odd_four[OF a0 odd rk])
  next
    assume "d = 5"
    show ?thesis unfolding \<open>d = 5\<close> of_int_numeral
      by (rule width_weight_odd_five[OF a0 odd rk])
  next
    assume "d = 6"
    show ?thesis unfolding \<open>d = 6\<close> of_int_numeral
      by (rule width_weight_odd_six[OF a0 odd rk])
  next
    assume "d = 7"
    show ?thesis unfolding \<open>d = 7\<close> of_int_numeral
      by (rule width_weight_odd_seven[OF a0 odd rk])
  qed
qed

lemma width_weight:
  fixes n :: nat and d :: int
  assumes n: "30 \<le> n" and d: "1 \<le> d" "d \<le> 7"
  defines "k \<equiv> n div 2 + 1"
  defines "M1 \<equiv> real k * (real k - 1) / 2 + (real n - real k) * real k"
  shows "((real n - 1) / 2 + real_of_int d)\<^sup>2 * (\<Sum>i<n. (real (min i k) - M1 / real n)\<^sup>2) * (real n - 1)
           \<le> (32 / 25 * (1 + real_of_int d / 30))\<^sup>2 * (real n * ((real n)\<^sup>2 - 1) / 12)\<^sup>2"
proof -
  have k_le: "k \<le> n" unfolding k_def using n by arith
  have npos: "0 < real n" using n by simp
  define M2 where "M2 = (real k - 1) * real k * (2 * real k - 1) / 6 + (real n - real k) * (real k)\<^sup>2"
  define t where "t = (real n - 1) / 2 + real_of_int d"
  define R where "R = (32 / 25 * (1 + real_of_int d / 30))\<^sup>2 * (real n * ((real n)\<^sup>2 - 1) / 12)\<^sup>2"
  define W where "W = real n * M2 - M1\<^sup>2"
  have "(\<Sum>i<n. (real (min i k) - M1 / real n)\<^sup>2)
          = M2 - 2 * (M1 / real n) * M1 + real n * (M1 / real n)\<^sup>2"
    unfolding M2_def M1_def by (rule H_closed[OF k_le])
  also have "\<dots> = W / real n"
    unfolding W_def using npos by (simp add: field_simps power2_eq_square)
  finally have H: "(\<Sum>i<n. (real (min i k) - M1 / real n)\<^sup>2) = W / real n" .
  from half_split[OF n] obtain a :: real where a0: "0 \<le> a" and rk: "real k = a + 16"
    and par: "real n = 2 * (a + 15) \<or> real n = 2 * (a + 15) + 1"
    unfolding k_def by blast
  have "t\<^sup>2 * W * (real n - 1) \<le> R * real n"
    unfolding t_def W_def R_def M2_def M1_def
    using par width_weight_even[OF a0 _ rk d] width_weight_odd[OF a0 _ rk d] by blast
  then have "t\<^sup>2 * W * (real n - 1) / real n \<le> R"
    using npos by (simp add: pos_divide_le_eq)
  then have "t\<^sup>2 * (W / real n) * (real n - 1) \<le> R" by simp
  then show ?thesis unfolding H t_def R_def .
qed

lemma upper_bound_certificate:
  fixes y :: "nat \<Rightarrow> real" and n :: nat and d :: int
  assumes n: "30 \<le> n" and d: "1 \<le> d" "d \<le> 7"
      and nn: "\<And>i. i < n \<Longrightarrow> 0 \<le> y i"
      and mean: "ybar * real n = (\<Sum>i<n. y i)"
  shows "0 \<le> ybar
             + ((real n - 1) / 2 + real_of_int d) / (real n * ((real n)\<^sup>2 - 1) / 12)
               * (\<Sum>i<n. (real i - (real n - 1) / 2) * (y i - ybar))
             + 32 / 25 * (1 + real_of_int d / 30) * sqrt ((\<Sum>i<n. (y i - ybar)\<^sup>2) / (real n - 1))"
proof (rule upper_bound_nonneg[where k = "n div 2 + 1"])
  show "2 \<le> n" using n by simp
  show "\<And>i. i < n \<Longrightarrow> 0 \<le> y i" by (rule nn)
  show "ybar * real n = (\<Sum>i<n. y i)" by (rule mean)
  show "0 \<le> (real n - 1) / 2 + real_of_int d" using n d by simp
  have "1 < (real n)\<^sup>2" using n by (intro one_less_power) simp_all
  then show "0 < real n * ((real n)\<^sup>2 - 1) / 12" using n by simp
  show "0 \<le> 32 / 25 * (1 + real_of_int d / 30)" using d by simp
  show "((real n - 1) / 2 + real_of_int d) * (\<Sum>i<n. real i - real (min i (n div 2 + 1)))
           \<le> real n * ((real n)\<^sup>2 - 1) / 12"
    by (rule slope_weight[OF n d])
  show "((real n - 1) / 2 + real_of_int d)\<^sup>2
          * (\<Sum>i<n. (real (min i (n div 2 + 1))
               - (real (n div 2 + 1) * (real (n div 2 + 1) - 1) / 2
                    + (real n - real (n div 2 + 1)) * real (n div 2 + 1)) / real n)\<^sup>2)
          * (real n - 1)
           \<le> (32 / 25 * (1 + real_of_int d / 30))\<^sup>2 * (real n * ((real n)\<^sup>2 - 1) / 12)\<^sup>2"
    by (rule width_weight[OF n d])
qed

subsection \<open>The fit and the deviation as sums over the positions\<close>

lemma sum_list_map_nth:
  fixes f :: "real \<Rightarrow> real"
  shows "sum_list (map f ys) = (\<Sum>i<length ys. f (ys ! i))"
proof -
  have "sum_list (map f ys) = (\<Sum>i = 0..<length (map f ys). map f ys ! i)"
    by (rule sum_list_sum_nth)
  also have "\<dots> = (\<Sum>i<length ys. f (ys ! i))"
    unfolding lessThan_atLeast0 by (rule sum.cong) simp_all
  finally show ?thesis .
qed

lemma sum_list_nth: "sum_list (ys :: real list) = (\<Sum>i<length ys. ys ! i)"
  using sum_list_map_nth[of "\<lambda>x. x" ys] by simp

lemma statistics_mean_x_values:
  assumes "0 < n"
  shows "statistics_mean (x_values n) = Inr ((real n - 1) / 2)"
proof -
  have "sum_list (x_values n) = (\<Sum>i<n. real i)"
    unfolding x_values_def by (simp add: interv_sum_list_conv_sum_set_nat lessThan_atLeast0)
  then show ?thesis
    using assms by (simp add: statistics_mean_def x_values_def sum_index)
qed

lemma reg_denominator_x_values:
  "reg_denominator (x_values n) c = (\<Sum>i<n. (real i - c)\<^sup>2)"
  unfolding reg_denominator_def x_values_def
  by (simp add: o_def interv_sum_list_conv_sum_set_nat lessThan_atLeast0)

lemma zip_x_values:
  "zip (x_values (length ys)) ys = map (\<lambda>i. (real i, ys ! i)) [0..<length ys]"
  unfolding x_values_def by (rule nth_equalityI) simp_all

lemma reg_numerator_x_values:
  "reg_numerator (x_values (length ys)) ys mx my = (\<Sum>i<length ys. (real i - mx) * (ys ! i - my))"
  unfolding reg_numerator_def zip_x_values
  by (simp add: o_def interv_sum_list_conv_sum_set_nat lessThan_atLeast0)

lemma forecast_fit_line:
  assumes "forecast_fit ys = Inr (Some (m, b, r2))"
  shows "m = (\<Sum>i<length ys. (real i - (real (length ys) - 1) / 2) * (ys ! i - sum_list ys / real (length ys)))
               / (\<Sum>i<length ys. (real i - (real (length ys) - 1) / 2)\<^sup>2)"
    and "b = sum_list ys / real (length ys) - m * ((real (length ys) - 1) / 2)"
proof -
  have ne: "ys \<noteq> []"
    using assms by (auto simp add: forecast_fit_def Let_def statistics_mean_def and_then_def x_values_def)
  then have mx: "statistics_mean (x_values (length ys)) = Inr ((real (length ys) - 1) / 2)"
    by (intro statistics_mean_x_values) simp
  have my: "statistics_mean ys = Inr (sum_list ys / real (length ys))"
    using ne by (simp add: statistics_mean_def)
  from assms have
    "m = reg_numerator (x_values (length ys)) ys ((real (length ys) - 1) / 2) (sum_list ys / real (length ys))
           / reg_denominator (x_values (length ys)) ((real (length ys) - 1) / 2)
     \<and> b = sum_list ys / real (length ys) - m * ((real (length ys) - 1) / 2)"
    unfolding forecast_fit_def Let_def mx my and_then_simps
    by (auto split: if_splits)
  then show "m = (\<Sum>i<length ys. (real i - (real (length ys) - 1) / 2) * (ys ! i - sum_list ys / real (length ys)))
               / (\<Sum>i<length ys. (real i - (real (length ys) - 1) / 2)\<^sup>2)"
    and "b = sum_list ys / real (length ys) - m * ((real (length ys) - 1) / 2)"
    unfolding reg_numerator_x_values reg_denominator_x_values by simp_all
qed

lemma statistics_stdev_sum:
  assumes "statistics_stdev ys = Inr sd"
  shows "sd = sqrt ((\<Sum>i<length ys. (ys ! i - sum_list ys / real (length ys))\<^sup>2) / (real (length ys) - 1))"
proof -
  from assms have len: "2 \<le> length ys"
    and sd: "sd = sqrt (sum_list (map (\<lambda>x. (x - sum_list ys / real (length ys))\<^sup>2) ys) / real (length ys - 1))"
    by (auto simp add: statistics_stdev_def Let_def split: if_splits)
  have "real (length ys - 1) = real (length ys) - 1" using len by simp
  then show ?thesis unfolding sd sum_list_map_nth by simp
qed

lemma forecast_upper_nonneg:
  assumes fit: "forecast_fit ys = Inr (Some (m, b, r2))"
      and sd: "statistics_stdev ys = Inr sd"
      and len: "30 \<le> length ys"
      and nn: "\<forall>c\<in>set ys. 0 \<le> c"
      and z: "32 / 25 \<le> z"
      and d: "1 \<le> day" "day \<le> 7"
  shows "0 \<le> m * (real (length ys) + real_of_int day - 1) + b + z * sd * (1 + real_of_int day / 30)"
proof -
  define n where "n = length ys"
  define ybar where "ybar = sum_list ys / real n"
  define N where "N = (\<Sum>i<n. (real i - (real n - 1) / 2) * (ys ! i - ybar))"
  define S where "S = (\<Sum>i<n. (real i - (real n - 1) / 2)\<^sup>2)"
  define Q where "Q = (\<Sum>i<n. (ys ! i - ybar)\<^sup>2)"
  define t where "t = (real n - 1) / 2 + real_of_int day"
  define c where "c = 32 / 25 * (1 + real_of_int day / 30)"
  have n30: "30 \<le> n" using len unfolding n_def .
  have m: "m = N / S" and b: "b = ybar - m * ((real n - 1) / 2)"
    using forecast_fit_line[OF fit] unfolding N_def S_def ybar_def n_def by simp_all
  have sdQ: "sd = sqrt (Q / (real n - 1))"
    using statistics_stdev_sum[OF sd] unfolding Q_def ybar_def n_def .
  have sd0: "0 \<le> sd" using sd by (rule statistics_stdev_nonneg)
  have S: "S = real n * ((real n)\<^sup>2 - 1) / 12" unfolding S_def by (rule S_closed)
  have mean: "ybar * real n = (\<Sum>i<n. ys ! i)"
    unfolding ybar_def using n30 sum_list_nth[of ys] by (simp add: n_def)
  have nn': "\<And>i. i < n \<Longrightarrow> 0 \<le> ys ! i" using nn unfolding n_def by simp
  have "0 \<le> ybar + t / S * N + c * sqrt (Q / (real n - 1))"
    unfolding t_def S N_def c_def Q_def
    by (rule upper_bound_certificate[OF n30 d nn' mean])
  then have cert: "0 \<le> ybar + t / S * N + c * sd" unfolding sdQ .
  have "m * (real n + real_of_int day - 1) + b = ybar + m * t"
    unfolding b t_def by (simp add: algebra_simps)
  also have "\<dots> = ybar + t / S * N" unfolding m by simp
  finally have pf: "m * (real n + real_of_int day - 1) + b = ybar + t / S * N" .
  have f0: "0 \<le> 1 + real_of_int day / 30" using d by simp
  have "32 / 25 * sd \<le> z * sd" using z sd0 by (rule mult_right_mono)
  then have "32 / 25 * sd * (1 + real_of_int day / 30) \<le> z * sd * (1 + real_of_int day / 30)"
    using f0 by (rule mult_right_mono)
  then have "c * sd \<le> z * sd * (1 + real_of_int day / 30)"
    unfolding c_def by (simp add: algebra_simps)
  then show ?thesis using cert unfolding pf n_def[symmetric] by simp
qed

lemma take_upto_range:
  assumes "day \<in> set (take k [1..fd])"
  shows "1 \<le> day \<and> day \<le> int k"
proof -
  from assms obtain i where i: "i < length (take k [1..fd])" and day: "take k [1..fd] ! i = day"
    unfolding in_set_conv_nth by blast
  from i have ik: "i < k" and ifd: "1 + int i \<le> fd" by auto
  have "day = [1..fd] ! i" using day i by simp
  also have "\<dots> = 1 + int i" using ifd by (rule nth_upto)
  finally show ?thesis using ik by simp
qed

lemma z_lookup_least:
  assumes "z_lookup cl = Inr z"
  shows "32 / 25 \<le> z"
  using z_lookup_table[OF assms] by auto

lemma set_sort_by_date: "set (sort_by_date points) = set points"
  by (simp add: sort_by_date_def)

lemma spread_nonneg: "list_all (\<lambda>q. 0 \<le> cost q) spread_points"
proof -
  have "list_all (\<lambda>c. 0 \<le> c) (map cost spread_points)"
    unfolding costs_spread spread_costs_list by simp
  then show ?thesis by (simp add: list_all_iff)
qed



text \<open>
  The hypothesis on the costs is used. The tool reads a negative cost like any other:
  thirty entries that all cost -5 are accepted, and the first forecast point has lower
  bound 0 above its upper bound -5.
\<close>

lemma CreateForecast_negative_costs:
  "map_option forecasts
     (result_of (CreateForecast_run example_lib (Some (JArr (constant_history (- 5)))) 1 (80 / 100)))
     = Some [\<lparr>forecast_date = 739282, day_offset = 1, forecast_cost = - 5, ci_lower = 0,
              ci_upper = - 5\<rparr>]"
  using CreateForecast_falling_5 by simp

text \<open>
  So is the limit of seven days. The loop also computes the points of the later days, which
  the result does not list and which enter its 30-day range. On the series 290, 280, ..., 0
  the fit has slope -10 and the deviation is \<open>sqrt 7750\<close>; the loop's point for day 30 has
  the estimate -300, the lower bound 0 and an upper bound of at most -1.
\<close>

lemma length_falling: "length falling_costs = 30"
  by (simp add: falling_costs_def)

lemma mean_falling: "statistics_mean falling_costs = Inr 145"
  by (simp add: statistics_mean_def falling_costs_def)

lemma stdev_falling: "statistics_stdev falling_costs = Inr (sqrt 7750)"
  by (simp add: statistics_stdev_def falling_costs_def Let_def power2_eq_square)

lemma numerator_falling: "reg_numerator (x_values 30) falling_costs (29 / 2) 145 = - 22475"
  by (simp add: reg_numerator_def x_values_30 falling_costs_def)

lemma ss_total_falling: "reg_ss_total falling_costs 145 = 224750"
  by (simp add: reg_ss_total_def falling_costs_def power2_eq_square)

lemma ss_residual_falling:
  "reg_ss_residual falling_costs (map (\<lambda>x. 290 - 10 * x) (x_values 30)) = 0"
  unfolding reg_ss_residual_def x_values_30 falling_costs_def by simp

lemma forecast_fit_falling: "forecast_fit falling_costs = Inr (Some (- 10, 290, 1))"
  by (simp add: forecast_fit_def Let_def length_falling mean_x_30 mean_falling denominator_30
        numerator_falling ss_total_falling ss_residual_falling)

lemma sqrt_7750: "sqrt 7750 < 89"
proof -
  have "sqrt 7750 < sqrt (89\<^sup>2)" by (subst real_sqrt_less_iff) simp
  then show ?thesis by simp
qed

lemma py_round_below: "x \<le> - 1 \<Longrightarrow> py_round x n \<le> - 1"
  using py_round_mono[of x "- 1" n] py_round_of_int[of "- 1" n] by simp

lemma falling_series_day_30:
  "\<exists>p. forecast_for_day (- 10) 290 (128 / 100) (sqrt 7750) 30 739281 30 = Inr p
       \<and> forecast_cost p = - 300 \<and> ci_lower p = 0 \<and> ci_upper p \<le> - 1"
proof -
  have w: "interval_width (128 / 100) (sqrt 7750) 30 < 228"
    using sqrt_7750 by (simp add: interval_width_def)
  have w0: "0 \<le> interval_width (128 / 100) (sqrt 7750) 30"
    by (simp add: interval_width_def)
  have lo: "max 0 (- 300 - interval_width (128 / 100) (sqrt 7750) 30) = 0"
    using w0 by simp
  have up: "py_round (- 300 + interval_width (128 / 100) (sqrt 7750) 30) 2 \<le> - 1"
    using w by (intro py_round_below) simp
  have fc: "py_round (- 300) 2 = - 300"
    using py_round_of_int[of "- 300" 2] by simp
  show ?thesis
    using lo up fc
    by (simp add: forecast_for_day_def add_days_def max_ordinal_def Let_def)
qed
end
